theory Spec2Isabelle
  imports Complex_Main
begin

section \<open>Bracket monitoring of place-order.js\<close>

text \<open>
  The two functions \<^verbatim>\<open>buyWithTPSLAndMonitor\<close> and \<^verbatim>\<open>shortSellWithTPSLAndMonitor\<close> of
  \<^verbatim>\<open>place-order.js\<close> place a take-profit (TP) and a stop-loss (SL) order and then poll
  the order book once a minute from a \<^verbatim>\<open>setInterval\<close> callback. The callback is modelled
  as a function from the monitor's variables and the gateway's replies of that tick to
  the new variables and the list of effects the tick performs, in program order. These
  tick functions are the callback when it overlaps no other callback; the callback cut
  at its awaits, and schedules in which callbacks overlap, follow further down.
\<close>

type_synonym order_id = string

subsection \<open>Numbers and order data\<close>

text \<open>
  A JavaScript number is a binary64 value: \<open>NaN\<close>, one of the two infinities, or a finite
  number, modelled by the real number it stands for (\<^verbatim>\<open>parseInt\<close> and \<^verbatim>\<open>parseFloat\<close> of
  the command line give \<open>NaN\<close> on text that is no number, and \<^verbatim>\<open>parseFloat\<close> reads
  \<^verbatim>\<open>Infinity\<close>). A comparison with \<open>NaN\<close> or with \<^verbatim>\<open>undefined\<close> (\<open>None\<close>) is false, and
  \<open>NaN\<close>, \<open>0\<close> and \<^verbatim>\<open>undefined\<close> are falsy.

  The result of an arithmetic operation is rounded to the nearest binary64 value. The
  rounding is the parameter \<open>rnd\<close> of the operations below; what the proofs use of it is
  stated where it is used: it is monotone, and it leaves a binary64 value as it is.
\<close>

datatype jsnum = NaN | PosInf | NegInf | Num real

text \<open>
  \<^verbatim>\<open>x + 0.50\<close> and \<^verbatim>\<open>x - 0.50\<close>. For a finite \<open>x\<close> the result is finite (half a unit
  cannot carry the largest binary64 value to infinity); an infinity and \<open>NaN\<close> stay.
\<close>

fun addHalf :: "(real \<Rightarrow> real) \<Rightarrow> jsnum \<Rightarrow> jsnum" where
  "addHalf rnd (Num a) = Num (rnd (a + 1 / 2))"
| "addHalf rnd other = other"

fun subHalf :: "(real \<Rightarrow> real) \<Rightarrow> jsnum \<Rightarrow> jsnum" where
  "subHalf rnd (Num a) = Num (rnd (a - 1 / 2))"
| "subHalf rnd other = other"

fun truthy :: "jsnum option \<Rightarrow> bool" where
  "truthy (Some (Num a)) = (a \<noteq> 0)"
| "truthy (Some PosInf) = True"
| "truthy (Some NegInf) = True"
| "truthy other = False"

text \<open>\<^verbatim>\<open>a <= b\<close> and \<^verbatim>\<open>a < b\<close>\<close>

fun num_le :: "jsnum option \<Rightarrow> jsnum option \<Rightarrow> bool" where
  "num_le (Some (Num a)) (Some (Num b)) = (a \<le> b)"
| "num_le (Some NegInf) (Some (Num b)) = True"
| "num_le (Some NegInf) (Some NegInf) = True"
| "num_le (Some NegInf) (Some PosInf) = True"
| "num_le (Some (Num a)) (Some PosInf) = True"
| "num_le (Some PosInf) (Some PosInf) = True"
| "num_le a b = False"

fun num_lt :: "jsnum option \<Rightarrow> jsnum option \<Rightarrow> bool" where
  "num_lt (Some (Num a)) (Some (Num b)) = (a < b)"
| "num_lt (Some NegInf) (Some (Num b)) = True"
| "num_lt (Some NegInf) (Some PosInf) = True"
| "num_lt (Some (Num a)) (Some PosInf) = True"
| "num_lt a b = False"

text \<open>
  Two roundings for the examples. Where the exact result is a binary64 value the rounding
  returns it (\<open>495 + 0.50\<close>). From \<open>2^53\<close> to \<open>2^54\<close> the binary64 values are the even
  integers, and the rounding takes the nearest one (\<open>10^16 - 0.50\<close> gives \<open>10^16\<close>).
\<close>

definition exactResult :: "real \<Rightarrow> real" where
  "exactResult x = x"

definition nearestEvenInteger :: "real \<Rightarrow> real" where
  "nearestEvenInteger x = 2 * real_of_int (round (x / 2))"

text \<open>
  The argument of \<^verbatim>\<open>orderService.placeOrder\<close>. \<open>otype\<close> is the field \<^verbatim>\<open>type\<close>
  (1 limit, 2 market, 3 stop-loss limit, 4 stop-loss market; 0 when absent), \<open>side\<close> is
  1 to buy and -1 to sell. Every call below passes \<^verbatim>\<open>productType: 'INTRADAY'\<close> and
  \<^verbatim>\<open>validity: 'DAY'\<close>, which no check reads.
\<close>

record order_data =
  symbol :: string
  quantity :: jsnum
  side :: int
  otype :: int
  limitPrice :: "jsnum option"
  stopPrice :: "jsnum option"

datatype place_error =
    MissingRequiredFields
  | LimitPriceRequired
  | StopPriceRequired
  | BuyStopPriceRelation
  | SellStopPriceRelation
  | OrderPlacementFailed

text \<open>
  \<^verbatim>\<open>validateOrderData\<close> of the order service with the price relation check; \<open>None\<close>
  when it returns without throwing.
\<close>

definition validateOrderData :: "order_data \<Rightarrow> place_error option" where
  "validateOrderData order =
     (if symbol order = [] \<or> \<not> truthy (Some (quantity order)) \<or> side order = 0
      then Some MissingRequiredFields
      else if (otype order = 1 \<or> otype order = 3)
              \<and> (\<not> truthy (limitPrice order) \<or> num_le (limitPrice order) (Some (Num 0)))
      then Some LimitPriceRequired
      else if (otype order = 3 \<or> otype order = 4)
              \<and> (\<not> truthy (stopPrice order) \<or> num_le (stopPrice order) (Some (Num 0)))
      then Some StopPriceRequired
      else if otype order = 3 \<and> side order = 1
              \<and> num_le (stopPrice order) (limitPrice order)
      then Some BuyStopPriceRelation
      else if otype order = 3 \<and> side order = - 1
              \<and> num_le (stopPrice order) (limitPrice order)
      then Some SellStopPriceRelation
      else None)"

text \<open>
  The reply of the SDK's \<^verbatim>\<open>place_order\<close>: \<^verbatim>\<open>s === 'ok'\<close> with the order's id, or
  anything else (a reply that is not ok, or a throw).
\<close>

datatype place_reply = PlaceOk order_id | PlaceFailed

text \<open>
  \<^verbatim>\<open>placeOrder\<close>: builds the order (\<^verbatim>\<open>type: orderData.type || 2\<close>, the prices through
  \<^verbatim>\<open>parseFloat\<close>, which gives a number back as it is), validates it, and only then calls
  the SDK. \<open>Inl\<close> is the error it throws.
\<close>

definition placeOrder :: "place_reply \<Rightarrow> order_data \<Rightarrow> place_error + order_id" where
  "placeOrder reply orderData =
     (let order = orderData\<lparr>otype := (if otype orderData = 0 then 2 else otype orderData)\<rparr> in
      case validateOrderData order of
        Some err \<Rightarrow> Inl err
      | None \<Rightarrow> (case reply of PlaceOk i \<Rightarrow> Inr i | PlaceFailed \<Rightarrow> Inl OrderPlacementFailed))"

subsection \<open>Order book snapshot\<close>

text \<open>An entry of \<^verbatim>\<open>orders.data.orderBook\<close>: its \<^verbatim>\<open>id\<close> and its \<^verbatim>\<open>status\<close>.\<close>

record book_entry =
  ident :: order_id
  status :: string

text \<open>
  \<^verbatim>\<open>orderService.getOrders()\<close> either throws (the SDK call fails or the reply's
  \<^verbatim>\<open>s\<close> is not \<^verbatim>\<open>'ok'\<close>) or returns the reply; \<^verbatim>\<open>orders.data?.orderBook\<close> may be
  undefined there (\<open>None\<close>).
\<close>

datatype orders_reply = GetOrdersFailed | GetOrdersOk "book_entry list option"

datatype cancel_reply = CancelOk | CancelFailed

datatype positions_reply = GetPositionsFailed | NoShortPosition | ShortPosition

text \<open>The replies of the gateway during one tick; a reply is read only if the call is made.\<close>

record tick_env =
  ordersReply :: orders_reply
  cancelReply :: cancel_reply
  positionsReply :: positions_reply

text \<open>
  \<^verbatim>\<open>tpOrderId\<close> and \<^verbatim>\<open>slOrderId\<close> are \<^verbatim>\<open>null\<close> (\<open>None\<close>) when the placement failed.
\<close>

record bracket =
  tpOrderId :: "order_id option"
  slOrderId :: "order_id option"

text \<open>The variables the callback closes over and mutates.\<close>

record monitor =
  monitoringActive :: bool
  monitorCount :: nat

text \<open>
  The lines the two functions print, by kind; the buy and the short-sell function word
  the same event differently (\<^verbatim>\<open>Take Profit executed\<close> and \<^verbatim>\<open>TAKE PROFIT HIT!\<close>
  are both \<open>TakeProfitExecuted\<close>). \<open>TradeCompletedProfit\<close> and \<open>TradeCompletedLoss\<close> are
  the closing lines of the take-profit and of the stop-loss branch, \<open>MonitoringStopped\<close>
  is \<^verbatim>\<open>Monitoring stopped after 6 hours. Orders still active.\<close>, \<open>MonitoringError\<close> is the
  line of the tick's outer \<^verbatim>\<open>catch\<close>, and \<open>CouldNotCancelStopLoss\<close> and
  \<open>CouldNotCancelTakeProfit\<close> are the lines of the \<^verbatim>\<open>catch\<close> around \<^verbatim>\<open>cancelOrder\<close>.
  Then the calls a tick or the set-up makes, and what it does to the timer.
\<close>

datatype message =
    MonitorCheck
  | TakeProfitExecuted
  | ProfitRealized
  | CancellingStopLoss
  | StopLossCancelled
  | CouldNotCancelStopLoss
  | TradeCompletedProfit
  | StopLossExecuted
  | LossRealized
  | CancellingTakeProfit
  | TakeProfitCancelled
  | CouldNotCancelTakeProfit
  | TradeCompletedLoss
  | MonitoringStatus
  | TakeProfitStatus
  | StopLossStatus
  | UnrealizedPnL
  | MonitoringStopped
  | MonitoringError
  | TakeProfitPlaced
  | TakeProfitFailed
  | StopLossDebug
  | StopLossPlaced
  | StopLossFailed
  | TryingFallback
  | StopLossFallbackPlaced
  | StopLossFallbackFailed
  | StartingMonitoring

datatype effect =
    CallGetOrders
  | CallGetPositions
  | CallCancelOrder "order_id option"
  | ClearInterval
  | CallPlaceOrder order_data
  | SetInterval
  | Print message

definition maxMonitorTime :: nat where
  "maxMonitorTime = 360"

text \<open>\<^verbatim>\<open>orders.data?.orderBook?.find(o => o.id === wanted)\<close>; no entry has the id \<^verbatim>\<open>null\<close>.\<close>

definition findOrder :: "book_entry list option \<Rightarrow> order_id option \<Rightarrow> book_entry option" where
  "findOrder book wanted =
     (case book of
        None \<Rightarrow> None
      | Some entries \<Rightarrow> List.find (\<lambda>entry. Some (ident entry) = wanted) entries)"

text \<open>\<^verbatim>\<open>o && (o.status === 'COMPLETE' || o.status === 'FILLED')\<close>\<close>

definition executed :: "book_entry option \<Rightarrow> bool" where
  "executed found =
     (case found of
        None \<Rightarrow> False
      | Some entry \<Rightarrow> status entry = ''COMPLETE'' \<or> status entry = ''FILLED'')"

subsection \<open>The tick of buyWithTPSLAndMonitor\<close>

definition buyMonitorTick :: "bracket \<Rightarrow> tick_env \<Rightarrow> monitor \<Rightarrow> monitor \<times> effect list" where
  "buyMonitorTick b env m =
     (if \<not> monitoringActive m then (m, [])
      else
        let m1 = m\<lparr>monitorCount := monitorCount m + 1\<rparr> in
        case ordersReply env of
          GetOrdersFailed \<Rightarrow> (m1, [CallGetOrders, Print MonitoringError])
        | GetOrdersOk book \<Rightarrow>
            if executed (findOrder book (tpOrderId b)) then
              (m1\<lparr>monitoringActive := False\<rparr>,
               [CallGetOrders, Print TakeProfitExecuted, CallCancelOrder (slOrderId b),
                Print (if cancelReply env = CancelOk then StopLossCancelled
                       else CouldNotCancelStopLoss),
                ClearInterval, Print TradeCompletedProfit])
            else if executed (findOrder book (slOrderId b)) then
              (m1\<lparr>monitoringActive := False\<rparr>,
               [CallGetOrders, Print StopLossExecuted, CallCancelOrder (tpOrderId b),
                Print (if cancelReply env = CancelOk then TakeProfitCancelled
                       else CouldNotCancelTakeProfit),
                ClearInterval, Print TradeCompletedLoss])
            else
              (m1\<lparr>monitoringActive := \<not> (maxMonitorTime \<le> monitorCount m1)\<rparr>,
               [CallGetOrders]
               @ (if monitorCount m1 mod 5 = 0 then [Print MonitoringStatus] else [])
               @ (if maxMonitorTime \<le> monitorCount m1
                  then [ClearInterval, Print MonitoringStopped] else [])))"

subsection \<open>The tick of shortSellWithTPSLAndMonitor\<close>

text \<open>
  The callback of the short-sell function also reads the closure variable
  \<^verbatim>\<open>finalStopLossPrice = price + (price * slPercent / 100)\<close>. \<^verbatim>\<open>price\<close> is the parsed
  command-line price, or else what the gateway sent as last traded price or as the
  execution price, taken as it came: when that is a string, \<^verbatim>\<open>+\<close> concatenates and
  \<^verbatim>\<open>finalStopLossPrice\<close> is a string. \<^verbatim>\<open>finalStopLossPrice.toFixed(2)\<close> then throws a
  TypeError, which the callback's outer \<^verbatim>\<open>catch\<close> prints. The callback calls it where it
  prints that the stop loss was hit, before \<^verbatim>\<open>cancelOrder\<close>, and where it prints the
  status of the stop-loss order, before the test against the maximum time. The other
  prices it formats come from a subtraction and are numbers.
\<close>

datatype js_value = JsNumber jsnum | JsString string

fun toFixedThrows :: "js_value \<Rightarrow> bool" where
  "toFixedThrows (JsString text) = True"
| "toFixedThrows (JsNumber n) = False"

definition shortMonitorTick ::
  "bracket \<Rightarrow> js_value \<Rightarrow> tick_env \<Rightarrow> monitor \<Rightarrow> monitor \<times> effect list" where
  "shortMonitorTick b finalStopLossPrice env m =
     (if \<not> monitoringActive m then (m, [])
      else
        let m1 = m\<lparr>monitorCount := monitorCount m + 1\<rparr> in
        case ordersReply env of
          GetOrdersFailed \<Rightarrow> (m1, [Print MonitorCheck, CallGetOrders, Print MonitoringError])
        | GetOrdersOk book \<Rightarrow>
            if executed (findOrder book (tpOrderId b)) then
              (m1\<lparr>monitoringActive := False\<rparr>,
               [Print MonitorCheck, CallGetOrders, Print TakeProfitExecuted,
                Print ProfitRealized, Print CancellingStopLoss,
                CallCancelOrder (slOrderId b),
                Print (if cancelReply env = CancelOk then StopLossCancelled
                       else CouldNotCancelStopLoss),
                ClearInterval, Print TradeCompletedProfit])
            else if executed (findOrder book (slOrderId b)) then
              (if toFixedThrows finalStopLossPrice then
                 (m1, [Print MonitorCheck, CallGetOrders, Print MonitoringError])
               else
                 (m1\<lparr>monitoringActive := False\<rparr>,
                  [Print MonitorCheck, CallGetOrders, Print StopLossExecuted,
                   Print LossRealized, Print CancellingTakeProfit,
                   CallCancelOrder (tpOrderId b),
                   Print (if cancelReply env = CancelOk then TakeProfitCancelled
                          else CouldNotCancelTakeProfit),
                   ClearInterval, Print TradeCompletedLoss]))
            else if toFixedThrows finalStopLossPrice then
              (m1, [Print MonitorCheck, CallGetOrders, Print TakeProfitStatus,
                    Print MonitoringError])
            else
              (m1\<lparr>monitoringActive := \<not> (maxMonitorTime \<le> monitorCount m1)\<rparr>,
               [Print MonitorCheck, CallGetOrders, Print TakeProfitStatus, Print StopLossStatus,
                CallGetPositions]
               @ (if positionsReply env = ShortPosition then [Print UnrealizedPnL] else [])
               @ (if maxMonitorTime \<le> monitorCount m1
                  then [ClearInterval, Print MonitoringStopped] else [])))"

subsection \<open>A run of ticks\<close>

text \<open>
  \<^verbatim>\<open>let monitoringActive = true; let monitorCount = 0;\<close> and then one call of the
  callback per element of the list of replies, each callback ending before the next one
  starts.
\<close>

definition startMonitor :: monitor where
  "startMonitor = \<lparr>monitoringActive = True, monitorCount = 0\<rparr>"

fun runTicks ::
  "(tick_env \<Rightarrow> monitor \<Rightarrow> monitor \<times> effect list) \<Rightarrow> monitor \<Rightarrow> tick_env list
     \<Rightarrow> monitor \<times> effect list" where
  "runTicks tick m [] = (m, [])"
| "runTicks tick m (env # envs) =
     (case tick env m of
        (m1, fx1) \<Rightarrow> (case runTicks tick m1 envs of (m2, fx2) \<Rightarrow> (m2, fx1 @ fx2)))"

text \<open>The calls of \<^verbatim>\<open>orderService.cancelOrder\<close> among the effects, in order.\<close>

fun isCancel :: "effect \<Rightarrow> bool" where
  "isCancel (CallCancelOrder i) = True"
| "isCancel other = False"

definition cancelCalls :: "effect list \<Rightarrow> effect list" where
  "cancelCalls fx = filter isCancel fx"

subsection \<open>Callbacks that overlap\<close>

text \<open>
  The callback is an \<^verbatim>\<open>async\<close> function. It tests \<^verbatim>\<open>monitoringActive\<close> once, at its
  first line, and then stops at each \<^verbatim>\<open>await\<close> (of \<^verbatim>\<open>getOrders\<close>, of \<^verbatim>\<open>cancelOrder\<close>, of
  \<^verbatim>\<open>getPositions\<close>) until the reply of the gateway arrives; \<^verbatim>\<open>monitoringActive = false\<close>
  is written only after the awaited \<^verbatim>\<open>cancelOrder\<close>. \<^verbatim>\<open>setInterval\<close> starts the next
  callback a minute later whether or not the earlier one has ended, and no call of the
  gateway has a timeout, so callbacks can overlap. A callback is therefore cut at its
  awaits: \<open>buyFire\<close> and \<open>shortFire\<close> run it from its start to the first await, and
  \<open>buyResume\<close> and \<open>shortResume\<close> run it from the arrival of the awaited reply to the
  next await or to its end. Each part reads and writes the shared variables as they are
  when it runs, and returns the await the callback stops at, if any.
\<close>

datatype awaiting = AwaitOrders | AwaitCancelStopLoss | AwaitCancelTakeProfit | AwaitPositions

datatype reply = GotOrders orders_reply | GotCancel cancel_reply | GotPositions positions_reply

definition buyFire :: "monitor \<Rightarrow> monitor \<times> effect list \<times> awaiting option" where
  "buyFire m =
     (if \<not> monitoringActive m then (m, [], None)
      else (m\<lparr>monitorCount := monitorCount m + 1\<rparr>, [CallGetOrders], Some AwaitOrders))"

definition shortFire :: "monitor \<Rightarrow> monitor \<times> effect list \<times> awaiting option" where
  "shortFire m =
     (if \<not> monitoringActive m then (m, [], None)
      else (m\<lparr>monitorCount := monitorCount m + 1\<rparr>,
            [Print MonitorCheck, CallGetOrders], Some AwaitOrders))"

text \<open>\<^verbatim>\<open>if (monitorCount >= maxMonitorTime) { monitoringActive = false; ... }\<close>\<close>

definition stopAfterMaxTime :: "monitor \<Rightarrow> monitor \<times> effect list" where
  "stopAfterMaxTime m =
     (if maxMonitorTime \<le> monitorCount m
      then (m\<lparr>monitoringActive := False\<rparr>, [ClearInterval, Print MonitoringStopped])
      else (m, []))"

text \<open>
  The last equation of \<open>buyResume\<close> and of \<open>shortResume\<close> is for a reply of another kind
  than the one awaited, which the gateway never sends: the callback stays where it is.
\<close>

fun buyResume ::
  "bracket \<Rightarrow> awaiting \<Rightarrow> reply \<Rightarrow> monitor \<Rightarrow> monitor \<times> effect list \<times> awaiting option" where
  "buyResume b AwaitOrders (GotOrders GetOrdersFailed) m = (m, [Print MonitoringError], None)"
| "buyResume b AwaitOrders (GotOrders (GetOrdersOk book)) m =
     (if executed (findOrder book (tpOrderId b)) then
        (m, [Print TakeProfitExecuted, CallCancelOrder (slOrderId b)], Some AwaitCancelStopLoss)
      else if executed (findOrder book (slOrderId b)) then
        (m, [Print StopLossExecuted, CallCancelOrder (tpOrderId b)], Some AwaitCancelTakeProfit)
      else
        (fst (stopAfterMaxTime m),
         (if monitorCount m mod 5 = 0 then [Print MonitoringStatus] else [])
         @ snd (stopAfterMaxTime m),
         None))"
| "buyResume b AwaitCancelStopLoss (GotCancel r) m =
     (m\<lparr>monitoringActive := False\<rparr>,
      [Print (if r = CancelOk then StopLossCancelled else CouldNotCancelStopLoss),
       ClearInterval, Print TradeCompletedProfit],
      None)"
| "buyResume b AwaitCancelTakeProfit (GotCancel r) m =
     (m\<lparr>monitoringActive := False\<rparr>,
      [Print (if r = CancelOk then TakeProfitCancelled else CouldNotCancelTakeProfit),
       ClearInterval, Print TradeCompletedLoss],
      None)"
| "buyResume b waiting other m = (m, [], Some waiting)"

fun shortResume ::
  "bracket \<Rightarrow> js_value \<Rightarrow> awaiting \<Rightarrow> reply \<Rightarrow> monitor
     \<Rightarrow> monitor \<times> effect list \<times> awaiting option" where
  "shortResume b finalStopLossPrice AwaitOrders (GotOrders GetOrdersFailed) m =
     (m, [Print MonitoringError], None)"
| "shortResume b finalStopLossPrice AwaitOrders (GotOrders (GetOrdersOk book)) m =
     (if executed (findOrder book (tpOrderId b)) then
        (m, [Print TakeProfitExecuted, Print ProfitRealized, Print CancellingStopLoss,
             CallCancelOrder (slOrderId b)],
         Some AwaitCancelStopLoss)
      else if executed (findOrder book (slOrderId b)) then
        (if toFixedThrows finalStopLossPrice then (m, [Print MonitoringError], None)
         else
           (m, [Print StopLossExecuted, Print LossRealized, Print CancellingTakeProfit,
                CallCancelOrder (tpOrderId b)],
            Some AwaitCancelTakeProfit))
      else if toFixedThrows finalStopLossPrice then
        (m, [Print TakeProfitStatus, Print MonitoringError], None)
      else
        (m, [Print TakeProfitStatus, Print StopLossStatus, CallGetPositions],
         Some AwaitPositions))"
| "shortResume b finalStopLossPrice AwaitCancelStopLoss (GotCancel r) m =
     (m\<lparr>monitoringActive := False\<rparr>,
      [Print (if r = CancelOk then StopLossCancelled else CouldNotCancelStopLoss),
       ClearInterval, Print TradeCompletedProfit],
      None)"
| "shortResume b finalStopLossPrice AwaitCancelTakeProfit (GotCancel r) m =
     (m\<lparr>monitoringActive := False\<rparr>,
      [Print (if r = CancelOk then TakeProfitCancelled else CouldNotCancelTakeProfit),
       ClearInterval, Print TradeCompletedLoss],
      None)"
| "shortResume b finalStopLossPrice AwaitPositions (GotPositions r) m =
     (fst (stopAfterMaxTime m),
      (if r = ShortPosition then [Print UnrealizedPnL] else []) @ snd (stopAfterMaxTime m),
      None)"
| "shortResume b finalStopLossPrice waiting other m = (m, [], Some waiting)"

text \<open>
  The shared variables and the callbacks that are stopped at an await, oldest first. An
  event is the timer starting a callback or the reply to the \<open>i\<close>-th stopped callback
  arriving; a schedule is any list of events. After \<^verbatim>\<open>clearInterval\<close> the timer starts
  no callback any more; a schedule may still hold such an event, which then finds
  \<^verbatim>\<open>monitoringActive\<close> false (the two are written together) and does nothing.
\<close>

record session =
  vars :: monitor
  inFlight :: "awaiting list"

datatype event = TimerFires | ReplyArrives nat reply

definition settle :: "awaiting list \<Rightarrow> nat \<Rightarrow> awaiting option \<Rightarrow> awaiting list" where
  "settle waiting i next =
     (case next of
        None \<Rightarrow> take i waiting @ drop (Suc i) waiting
      | Some k \<Rightarrow> waiting[i := k])"

definition scheduleStep ::
  "(monitor \<Rightarrow> monitor \<times> effect list \<times> awaiting option)
     \<Rightarrow> (awaiting \<Rightarrow> reply \<Rightarrow> monitor \<Rightarrow> monitor \<times> effect list \<times> awaiting option)
     \<Rightarrow> event \<Rightarrow> session \<Rightarrow> session \<times> effect list" where
  "scheduleStep fire resume ev s =
     (case ev of
        TimerFires \<Rightarrow>
          (case fire (vars s) of
             (m, fx, next) \<Rightarrow>
               (\<lparr>vars = m,
                 inFlight = inFlight s @ (case next of None \<Rightarrow> [] | Some k \<Rightarrow> [k])\<rparr>, fx))
      | ReplyArrives i r \<Rightarrow>
          (if i < length (inFlight s) then
             (case resume (inFlight s ! i) r (vars s) of
                (m, fx, next) \<Rightarrow> (\<lparr>vars = m, inFlight = settle (inFlight s) i next\<rparr>, fx))
           else (s, [])))"

fun runSchedule ::
  "(monitor \<Rightarrow> monitor \<times> effect list \<times> awaiting option)
     \<Rightarrow> (awaiting \<Rightarrow> reply \<Rightarrow> monitor \<Rightarrow> monitor \<times> effect list \<times> awaiting option)
     \<Rightarrow> session \<Rightarrow> event list \<Rightarrow> session \<times> effect list" where
  "runSchedule fire resume s [] = (s, [])"
| "runSchedule fire resume s (ev # evs) =
     (case scheduleStep fire resume ev s of
        (s1, fx1) \<Rightarrow>
          (case runSchedule fire resume s1 evs of (s2, fx2) \<Rightarrow> (s2, fx1 @ fx2)))"

text \<open>
  The schedule of one callback that overlaps no other: it starts, and each of its awaits
  is answered before anything else happens. \<open>buyMonitorTick\<close> and \<open>shortMonitorTick\<close> are
  the callback run on this schedule, and \<open>runTicks\<close> is a run of such callbacks one after
  the other (lemmas \<open>buyMonitorTick_alone\<close>, \<open>shortMonitorTick_alone\<close> and
  \<open>runTicks_sequential\<close> below).
\<close>

definition aloneSchedule :: "tick_env \<Rightarrow> event list" where
  "aloneSchedule env =
     [TimerFires,
      ReplyArrives 0 (GotOrders (ordersReply env)),
      ReplyArrives 0 (GotCancel (cancelReply env)),
      ReplyArrives 0 (GotPositions (positionsReply env))]"

subsection \<open>Placing the two protective orders and starting the monitor\<close>

text \<open>
  Step 2 and the start of Step 3 of both functions, from the values the earlier steps
  computed: the upper-cased symbol, the quantity and the two rounded prices. Each
  placement sits in its own \<^verbatim>\<open>try\<close>; its \<^verbatim>\<open>catch\<close> prints the error and goes on.
\<close>

record place_env =
  tpPlaceReply :: place_reply
  slPlaceReply :: place_reply
  slFallbackReply :: place_reply

definition placedId :: "place_error + order_id \<Rightarrow> order_id option" where
  "placedId result = (case result of Inl err \<Rightarrow> None | Inr i \<Rightarrow> Some i)"

definition buyTakeProfitOrder :: "string \<Rightarrow> jsnum \<Rightarrow> jsnum \<Rightarrow> order_data" where
  "buyTakeProfitOrder symb qty takeProfitPrice =
     \<lparr>symbol = symb, quantity = qty, side = - 1, otype = 1,
      limitPrice = Some takeProfitPrice, stopPrice = None\<rparr>"

definition buyStopLossOrder ::
  "(real \<Rightarrow> real) \<Rightarrow> string \<Rightarrow> jsnum \<Rightarrow> jsnum \<Rightarrow> order_data" where
  "buyStopLossOrder rnd symb qty stopLossPrice =
     \<lparr>symbol = symb, quantity = qty, side = - 1, otype = 3,
      limitPrice = Some stopLossPrice,
      stopPrice = Some (addHalf rnd stopLossPrice)\<rparr>"

definition buyPlaceTPSL ::
  "(real \<Rightarrow> real) \<Rightarrow> string \<Rightarrow> jsnum \<Rightarrow> jsnum \<Rightarrow> jsnum \<Rightarrow> place_env
     \<Rightarrow> bracket \<times> effect list" where
  "buyPlaceTPSL rnd symb qty takeProfitPrice stopLossPrice env =
     (let tpResult = placeOrder (tpPlaceReply env) (buyTakeProfitOrder symb qty takeProfitPrice);
          slResult = placeOrder (slPlaceReply env) (buyStopLossOrder rnd symb qty stopLossPrice)
      in (\<lparr>tpOrderId = placedId tpResult, slOrderId = placedId slResult\<rparr>,
          [CallPlaceOrder (buyTakeProfitOrder symb qty takeProfitPrice),
           Print (if isl tpResult then TakeProfitFailed else TakeProfitPlaced),
           Print StopLossDebug,
           CallPlaceOrder (buyStopLossOrder rnd symb qty stopLossPrice),
           Print (if isl slResult then StopLossFailed else StopLossPlaced),
           Print StartingMonitoring, SetInterval]))"

definition shortTakeProfitOrder :: "string \<Rightarrow> jsnum \<Rightarrow> jsnum \<Rightarrow> order_data" where
  "shortTakeProfitOrder symb qty takeProfitPrice =
     \<lparr>symbol = symb, quantity = qty, side = 1, otype = 1,
      limitPrice = Some takeProfitPrice, stopPrice = None\<rparr>"

definition shortStopLossOrder ::
  "(real \<Rightarrow> real) \<Rightarrow> string \<Rightarrow> jsnum \<Rightarrow> jsnum \<Rightarrow> order_data" where
  "shortStopLossOrder rnd symb qty stopLossPrice =
     \<lparr>symbol = symb, quantity = qty, side = 1, otype = 3,
      limitPrice = Some stopLossPrice,
      stopPrice = Some (subHalf rnd stopLossPrice)\<rparr>"

definition shortStopLossFallbackOrder :: "string \<Rightarrow> jsnum \<Rightarrow> jsnum \<Rightarrow> order_data" where
  "shortStopLossFallbackOrder symb qty stopLossPrice =
     \<lparr>symbol = symb, quantity = qty, side = 1, otype = 4,
      limitPrice = None, stopPrice = Some stopLossPrice\<rparr>"

definition shortPlaceTPSL ::
  "(real \<Rightarrow> real) \<Rightarrow> string \<Rightarrow> jsnum \<Rightarrow> jsnum \<Rightarrow> jsnum \<Rightarrow> place_env
     \<Rightarrow> bracket \<times> effect list" where
  "shortPlaceTPSL rnd symb qty takeProfitPrice stopLossPrice env =
     (let tpResult = placeOrder (tpPlaceReply env) (shortTakeProfitOrder symb qty takeProfitPrice);
          slResult = placeOrder (slPlaceReply env) (shortStopLossOrder rnd symb qty stopLossPrice);
          fbResult = placeOrder (slFallbackReply env)
                       (shortStopLossFallbackOrder symb qty stopLossPrice)
      in (\<lparr>tpOrderId = placedId tpResult,
           slOrderId = (if isl slResult then placedId fbResult else placedId slResult)\<rparr>,
          [CallPlaceOrder (shortTakeProfitOrder symb qty takeProfitPrice),
           Print (if isl tpResult then TakeProfitFailed else TakeProfitPlaced),
           Print StopLossDebug,
           CallPlaceOrder (shortStopLossOrder rnd symb qty stopLossPrice)]
          @ (if isl slResult
             then [Print StopLossFailed, Print TryingFallback,
                   CallPlaceOrder (shortStopLossFallbackOrder symb qty stopLossPrice),
                   Print (if isl fbResult then StopLossFallbackFailed
                          else StopLossFallbackPlaced)]
             else [Print StopLossPlaced])
          @ [Print StartingMonitoring, SetInterval]))"

section \<open>Properties of a tick and of a run\<close>

lemma buyMonitorTick_inactive:
  "\<not> monitoringActive m \<Longrightarrow> buyMonitorTick b env m = (m, [])"
  by (simp add: buyMonitorTick_def)


lemma runTicks_inactive:
  assumes inert: "\<And>env. tick env m = (m, [])"
  shows "runTicks tick m envs = (m, [])"
  by (induction envs) (simp_all add: inert)

lemma buyMonitorTick_tp_executed:
  assumes "monitoringActive m" and "ordersReply env = GetOrdersOk book"
    and "executed (findOrder book (tpOrderId b))"
  shows "buyMonitorTick b env m =
           (\<lparr>monitoringActive = False, monitorCount = monitorCount m + 1\<rparr>,
            [CallGetOrders, Print TakeProfitExecuted, CallCancelOrder (slOrderId b),
             Print (if cancelReply env = CancelOk then StopLossCancelled
                    else CouldNotCancelStopLoss),
             ClearInterval, Print TradeCompletedProfit])"
  using assms by (simp add: buyMonitorTick_def)

lemma shortMonitorTick_tp_executed:
  assumes "monitoringActive m" and "ordersReply env = GetOrdersOk book"
    and "executed (findOrder book (tpOrderId b))"
  shows "shortMonitorTick b slPrice env m =
           (\<lparr>monitoringActive = False, monitorCount = monitorCount m + 1\<rparr>,
            [Print MonitorCheck, CallGetOrders, Print TakeProfitExecuted,
             Print ProfitRealized, Print CancellingStopLoss,
             CallCancelOrder (slOrderId b),
             Print (if cancelReply env = CancelOk then StopLossCancelled
                    else CouldNotCancelStopLoss),
             ClearInterval, Print TradeCompletedProfit])"
  using assms by (simp add: shortMonitorTick_def)

lemma buyMonitorTick_sl_executed:
  assumes "monitoringActive m" and "ordersReply env = GetOrdersOk book"
    and "\<not> executed (findOrder book (tpOrderId b))"
    and "executed (findOrder book (slOrderId b))"
  shows "buyMonitorTick b env m =
           (\<lparr>monitoringActive = False, monitorCount = monitorCount m + 1\<rparr>,
            [CallGetOrders, Print StopLossExecuted, CallCancelOrder (tpOrderId b),
             Print (if cancelReply env = CancelOk then TakeProfitCancelled
                    else CouldNotCancelTakeProfit),
             ClearInterval, Print TradeCompletedLoss])"
  using assms by (simp add: buyMonitorTick_def)

lemma shortMonitorTick_sl_executed:
  assumes "monitoringActive m" and "ordersReply env = GetOrdersOk book"
    and "\<not> executed (findOrder book (tpOrderId b))"
    and "executed (findOrder book (slOrderId b))"
    and "\<not> toFixedThrows slPrice"
  shows "shortMonitorTick b slPrice env m =
           (\<lparr>monitoringActive = False, monitorCount = monitorCount m + 1\<rparr>,
            [Print MonitorCheck, CallGetOrders, Print StopLossExecuted,
             Print LossRealized, Print CancellingTakeProfit,
             CallCancelOrder (tpOrderId b),
             Print (if cancelReply env = CancelOk then TakeProfitCancelled
                    else CouldNotCancelTakeProfit),
             ClearInterval, Print TradeCompletedLoss])"
  using assms by (simp add: shortMonitorTick_def)

lemma buyMonitorTick_fetch_failed:
  assumes "monitoringActive m" and "ordersReply env = GetOrdersFailed"
  shows "buyMonitorTick b env m =
           (m\<lparr>monitorCount := monitorCount m + 1\<rparr>, [CallGetOrders, Print MonitoringError])"
  using assms by (simp add: buyMonitorTick_def)

lemma shortMonitorTick_fetch_failed:
  assumes "monitoringActive m" and "ordersReply env = GetOrdersFailed"
  shows "shortMonitorTick b slPrice env m =
           (m\<lparr>monitorCount := monitorCount m + 1\<rparr>,
            [Print MonitorCheck, CallGetOrders, Print MonitoringError])"
  using assms by (simp add: shortMonitorTick_def)




lemma terminal_message_inactive_buy:
  assumes "Print TradeCompletedProfit \<in> set (snd (buyMonitorTick b env m))
           \<or> Print TradeCompletedLoss \<in> set (snd (buyMonitorTick b env m))
           \<or> Print MonitoringStopped \<in> set (snd (buyMonitorTick b env m))"
  shows "\<not> monitoringActive (fst (buyMonitorTick b env m))"
  using assms
  by (auto simp add: buyMonitorTick_def Let_def split: orders_reply.splits if_splits)

lemma terminal_message_inactive_short:
  assumes "Print TradeCompletedProfit \<in> set (snd (shortMonitorTick b slPrice env m))
           \<or> Print TradeCompletedLoss \<in> set (snd (shortMonitorTick b slPrice env m))
           \<or> Print MonitoringStopped \<in> set (snd (shortMonitorTick b slPrice env m))"
  shows "\<not> monitoringActive (fst (shortMonitorTick b slPrice env m))"
  using assms
  by (auto simp add: shortMonitorTick_def Let_def split: orders_reply.splits if_splits)

lemma buyMonitorTick_no_fill:
  assumes "monitoringActive m" and "ordersReply env = GetOrdersOk book"
    and "\<not> executed (findOrder book (tpOrderId b))"
    and "\<not> executed (findOrder book (slOrderId b))"
  shows "buyMonitorTick b env m =
           (\<lparr>monitoringActive = \<not> (maxMonitorTime \<le> monitorCount m + 1),
             monitorCount = monitorCount m + 1\<rparr>,
            [CallGetOrders]
            @ (if (monitorCount m + 1) mod 5 = 0 then [Print MonitoringStatus] else [])
            @ (if maxMonitorTime \<le> monitorCount m + 1
               then [ClearInterval, Print MonitoringStopped] else []))"
  using assms by (simp add: buyMonitorTick_def)

lemma shortMonitorTick_no_fill:
  assumes "monitoringActive m" and "ordersReply env = GetOrdersOk book"
    and "\<not> executed (findOrder book (tpOrderId b))"
    and "\<not> executed (findOrder book (slOrderId b))"
    and "\<not> toFixedThrows slPrice"
  shows "shortMonitorTick b slPrice env m =
           (\<lparr>monitoringActive = \<not> (maxMonitorTime \<le> monitorCount m + 1),
             monitorCount = monitorCount m + 1\<rparr>,
            [Print MonitorCheck, CallGetOrders, Print TakeProfitStatus, Print StopLossStatus,
                CallGetPositions]
            @ (if positionsReply env = ShortPosition then [Print UnrealizedPnL] else [])
            @ (if maxMonitorTime \<le> monitorCount m + 1
               then [ClearInterval, Print MonitoringStopped] else []))"
  using assms by (simp add: shortMonitorTick_def)

subsection \<open>Expiry after the maximum number of ticks without a fill\<close>

text \<open>
  From the start of the monitor, 360 ticks that each fetch the orders and see neither
  order executed end with the monitor stopped at the count of 360, without a call of
  \<^verbatim>\<open>cancelOrder\<close> and with the stop printed once; ticks after them add nothing.
\<close>

lemma runTicks_append:
  "runTicks tick m (envs @ later) =
     (case runTicks tick m envs of
        (m1, fx1) \<Rightarrow> (case runTicks tick m1 later of (m2, fx2) \<Rightarrow> (m2, fx1 @ fx2)))"
  by (induction envs arbitrary: m) (auto split: prod.splits)

lemma buy_quiet_run:
  assumes "monitoringActive m"
    and "monitorCount m + length envs < maxMonitorTime"
    and "\<forall>env \<in> set envs. \<exists>book. ordersReply env = GetOrdersOk book
           \<and> \<not> executed (findOrder book (tpOrderId b))
           \<and> \<not> executed (findOrder book (slOrderId b))"
  shows "fst (runTicks (buyMonitorTick b) m envs)
           = \<lparr>monitoringActive = True, monitorCount = monitorCount m + length envs\<rparr>
         \<and> cancelCalls (snd (runTicks (buyMonitorTick b) m envs)) = []
         \<and> Print MonitoringStopped \<notin> set (snd (runTicks (buyMonitorTick b) m envs))"
  using assms
proof (induction envs arbitrary: m)
  case Nil
  then show ?case by (simp add: cancelCalls_def)
next
  case (Cons env envs)
  from Cons.prems(3) obtain book where f: "ordersReply env = GetOrdersOk book"
    and tp: "\<not> executed (findOrder book (tpOrderId b))"
    and sl: "\<not> executed (findOrder book (slOrderId b))" by auto
  let ?m1 = "\<lparr>monitoringActive = True, monitorCount = monitorCount m + 1\<rparr>"
  have early: "\<not> maxMonitorTime \<le> monitorCount m + 1" using Cons.prems(2) by simp
  have step: "buyMonitorTick b env m =
      (?m1, [CallGetOrders] @ (if (monitorCount m + 1) mod 5 = 0 then [Print MonitoringStatus] else []))"
    using early by (simp add: buyMonitorTick_no_fill [OF Cons.prems(1) f tp sl])
  have a1: "monitoringActive ?m1" by simp
  have c1: "monitorCount ?m1 + length envs < maxMonitorTime" using Cons.prems(2) by simp
  have r1: "\<forall>env \<in> set envs. \<exists>book. ordersReply env = GetOrdersOk book
           \<and> \<not> executed (findOrder book (tpOrderId b))
           \<and> \<not> executed (findOrder book (slOrderId b))" using Cons.prems(3) by simp
  obtain m2 fx2 where r: "runTicks (buyMonitorTick b) ?m1 envs = (m2, fx2)"
    by (cases "runTicks (buyMonitorTick b) ?m1 envs")
  from Cons.IH [OF a1 c1 r1] r show ?case
    by (simp add: step cancelCalls_def)
qed

lemma buy_expires_after_max_quiet_ticks:
  assumes len: "length envs = maxMonitorTime"
    and quiet: "\<forall>env \<in> set envs. \<exists>book. ordersReply env = GetOrdersOk book
           \<and> \<not> executed (findOrder book (tpOrderId b))
           \<and> \<not> executed (findOrder book (slOrderId b))"
  shows "fst (runTicks (buyMonitorTick b) startMonitor (envs @ later))
           = \<lparr>monitoringActive = False, monitorCount = maxMonitorTime\<rparr>
         \<and> cancelCalls (snd (runTicks (buyMonitorTick b) startMonitor (envs @ later))) = []
         \<and> filter (\<lambda>e. e = Print MonitoringStopped)
              (snd (runTicks (buyMonitorTick b) startMonitor (envs @ later)))
             = [Print MonitoringStopped]"
proof -
  from len obtain front env where split: "envs = front @ [env]"
    and flen: "length front = maxMonitorTime - 1"
    by (cases envs rule: rev_cases) (auto simp add: maxMonitorTime_def)
  from quiet split obtain book where f: "ordersReply env = GetOrdersOk book"
    and tp: "\<not> executed (findOrder book (tpOrderId b))"
    and sl: "\<not> executed (findOrder book (slOrderId b))" by auto
  have fq: "\<forall>env \<in> set front. \<exists>book. ordersReply env = GetOrdersOk book
           \<and> \<not> executed (findOrder book (tpOrderId b))
           \<and> \<not> executed (findOrder book (slOrderId b))" using quiet split by simp
  have a0: "monitoringActive startMonitor" by (simp add: startMonitor_def)
  have c0: "monitorCount startMonitor + length front < maxMonitorTime"
    using flen by (simp add: startMonitor_def maxMonitorTime_def)
  define m1 where "m1 = \<lparr>monitoringActive = True, monitorCount = maxMonitorTime - 1\<rparr>"
  define m2 where "m2 = \<lparr>monitoringActive = False, monitorCount = maxMonitorTime\<rparr>"
  define fxs where "fxs = [CallGetOrders]
      @ (if maxMonitorTime mod 5 = 0 then [Print MonitoringStatus] else [])
      @ [ClearInterval, Print MonitoringStopped]"
  obtain fx1 where run1: "runTicks (buyMonitorTick b) startMonitor front = (m1, fx1)"
    and no1: "cancelCalls fx1 = []" "Print MonitoringStopped \<notin> set fx1"
    using buy_quiet_run [OF a0 c0 fq] flen
    by (cases "runTicks (buyMonitorTick b) startMonitor front") (simp add: startMonitor_def m1_def)
  have a1: "monitoringActive m1" by (simp add: m1_def)
  have step: "buyMonitorTick b env m1 = (m2, fxs)"
    using buyMonitorTick_no_fill [OF a1 f tp sl]
    by (simp add: m1_def m2_def fxs_def maxMonitorTime_def)
  have rest: "runTicks (buyMonitorTick b) m2 later = (m2, [])"
    by (rule runTicks_inactive) (simp add: buyMonitorTick_inactive m2_def)
  have whole: "runTicks (buyMonitorTick b) startMonitor (envs @ later) = (m2, fx1 @ fxs)"
    by (simp add: split runTicks_append run1 step rest)
  have none: "filter (\<lambda>e. e = Print MonitoringStopped) fx1 = []"
    using no1(2) by (auto simp add: filter_empty_conv)
  have c: "cancelCalls (fx1 @ fxs) = []"
    using no1(1) by (simp add: cancelCalls_def fxs_def)
  have s: "filter (\<lambda>e. e = Print MonitoringStopped) (fx1 @ fxs) = [Print MonitoringStopped]"
    using none by (simp add: fxs_def)
  show ?thesis
    by (simp only: whole fst_conv snd_conv c s m2_def)
qed

lemma shortMonitorTick_sl_executed_throws:
  assumes "monitoringActive m" and "ordersReply env = GetOrdersOk book"
    and "\<not> executed (findOrder book (tpOrderId b))"
    and "executed (findOrder book (slOrderId b))"
    and "toFixedThrows slPrice"
  shows "shortMonitorTick b slPrice env m =
           (m\<lparr>monitorCount := monitorCount m + 1\<rparr>,
            [Print MonitorCheck, CallGetOrders, Print MonitoringError])"
  using assms by (simp add: shortMonitorTick_def)

lemma shortMonitorTick_no_fill_throws:
  assumes "monitoringActive m" and "ordersReply env = GetOrdersOk book"
    and "\<not> executed (findOrder book (tpOrderId b))"
    and "\<not> executed (findOrder book (slOrderId b))"
    and "toFixedThrows slPrice"
  shows "shortMonitorTick b slPrice env m =
           (m\<lparr>monitorCount := monitorCount m + 1\<rparr>,
            [Print MonitorCheck, CallGetOrders, Print TakeProfitStatus, Print MonitoringError])"
  using assms by (simp add: shortMonitorTick_def)

subsection \<open>A tick is a callback that overlaps no other\<close>

lemma buyMonitorTick_alone:
  "runSchedule buyFire (buyResume b) \<lparr>vars = m, inFlight = []\<rparr> (aloneSchedule env)
   = (\<lparr>vars = fst (buyMonitorTick b env m), inFlight = []\<rparr>, snd (buyMonitorTick b env m))"
proof (cases "ordersReply env")
  case GetOrdersFailed
  then show ?thesis
    by (simp add: aloneSchedule_def scheduleStep_def buyFire_def buyMonitorTick_def settle_def)
next
  case (GetOrdersOk book)
  then show ?thesis
    by (simp add: aloneSchedule_def scheduleStep_def buyFire_def buyMonitorTick_def settle_def
        stopAfterMaxTime_def)
qed

lemma shortMonitorTick_alone:
  "runSchedule shortFire (shortResume b slPrice) \<lparr>vars = m, inFlight = []\<rparr> (aloneSchedule env)
   = (\<lparr>vars = fst (shortMonitorTick b slPrice env m), inFlight = []\<rparr>,
      snd (shortMonitorTick b slPrice env m))"
proof (cases "ordersReply env")
  case GetOrdersFailed
  then show ?thesis
    by (simp add: aloneSchedule_def scheduleStep_def shortFire_def shortMonitorTick_def settle_def)
next
  case (GetOrdersOk book)
  then show ?thesis
    by (simp add: aloneSchedule_def scheduleStep_def shortFire_def shortMonitorTick_def settle_def
        stopAfterMaxTime_def)
qed



subsection \<open>A stopped monitor with no callback in flight\<close>

lemma buyFire_inactive: "\<not> monitoringActive m \<Longrightarrow> buyFire m = (m, [], None)"
  by (simp add: buyFire_def)

lemma shortFire_inactive: "\<not> monitoringActive m \<Longrightarrow> shortFire m = (m, [], None)"
  by (simp add: shortFire_def)

lemma runSchedule_idle:
  assumes inert: "fire (vars s) = (vars s, [], None)"
    and idle: "inFlight s = []"
  shows "runSchedule fire resume s sched = (s, [])"
proof (induction sched)
  case Nil
  show ?case by simp
next
  case (Cons ev sched)
  have "scheduleStep fire resume ev s = (s, [])"
    by (cases ev) (simp_all add: scheduleStep_def inert idle)
  with Cons.IH show ?case by simp
qed



section \<open>Claims about the monitor\<close>







text \<open>
  C1. The claim fails on the code: the callback has no outcome for two fills in one
  snapshot. It tests the take-profit order first, so when both orders are executed in the
  snapshot the tick takes the take-profit branch: it calls \<^verbatim>\<open>cancelOrder\<close> on the
  stop-loss order and ends the trade as a profit.
\<close>

theorem both_filled_cancels_stop_loss_counterexample:
  "buyMonitorTick \<lparr>tpOrderId = Some ''TP1'', slOrderId = Some ''SL1''\<rparr>
     \<lparr>ordersReply = GetOrdersOk (Some [\<lparr>ident = ''TP1'', status = ''COMPLETE''\<rparr>,
                                       \<lparr>ident = ''SL1'', status = ''COMPLETE''\<rparr>]),
      cancelReply = CancelOk, positionsReply = NoShortPosition\<rparr>
     startMonitor
   = (\<lparr>monitoringActive = False, monitorCount = 1\<rparr>,
      [CallGetOrders, Print TakeProfitExecuted, CallCancelOrder (Some ''SL1''),
       Print StopLossCancelled, ClearInterval, Print TradeCompletedProfit])"
  by (simp add: buyMonitorTick_def startMonitor_def findOrder_def executed_def)

text \<open>
  C1, as amended. For every tick of an active monitor whose snapshot shows both the
  take-profit and the stop-loss order executed, in both functions: the monitor stops,
  the tick prints that the trade completed with profit and not that it completed with
  loss, and it makes exactly one call of \<^verbatim>\<open>cancelOrder\<close>, on the stop-loss order id.
\<close>

theorem both_filled_resolves_profit:
  assumes active: "monitoringActive m"
    and fetched: "ordersReply env = GetOrdersOk book"
    and tp: "executed (findOrder book (tpOrderId b))"
    and sl: "executed (findOrder book (slOrderId b))"
    and which: "tick = buyMonitorTick b \<or> tick = shortMonitorTick b slPrice"
  shows "\<not> monitoringActive (fst (tick env m))
         \<and> cancelCalls (snd (tick env m)) = [CallCancelOrder (slOrderId b)]
         \<and> Print TradeCompletedProfit \<in> set (snd (tick env m))
         \<and> Print TradeCompletedLoss \<notin> set (snd (tick env m))"
  using which
proof
  assume "tick = buyMonitorTick b"
  then show ?thesis
    by (simp add: buyMonitorTick_tp_executed [OF active fetched tp] cancelCalls_def)
next
  assume "tick = shortMonitorTick b slPrice"
  then show ?thesis
    by (simp add: shortMonitorTick_tp_executed [OF active fetched tp] cancelCalls_def)
qed

theorem both_filled_resolves_profit_witness:
  "monitoringActive startMonitor
   \<and> executed (findOrder (Some [\<lparr>ident = ''TP1'', status = ''FILLED''\<rparr>,
                                \<lparr>ident = ''SL1'', status = ''COMPLETE''\<rparr>]) (Some ''TP1''))
   \<and> executed (findOrder (Some [\<lparr>ident = ''TP1'', status = ''FILLED''\<rparr>,
                                \<lparr>ident = ''SL1'', status = ''COMPLETE''\<rparr>]) (Some ''SL1''))
   \<and> cancelCalls (snd (shortMonitorTick \<lparr>tpOrderId = Some ''TP1'', slOrderId = Some ''SL1''\<rparr>
        (JsNumber (Num 502))
        \<lparr>ordersReply = GetOrdersOk (Some [\<lparr>ident = ''TP1'', status = ''FILLED''\<rparr>,
                                          \<lparr>ident = ''SL1'', status = ''COMPLETE''\<rparr>]),
         cancelReply = CancelFailed, positionsReply = NoShortPosition\<rparr>
        startMonitor))
     = [CallCancelOrder (Some ''SL1'')]"
proof -
  let ?b = "\<lparr>tpOrderId = Some ''TP1'', slOrderId = Some ''SL1''\<rparr>"
  let ?book = "Some [\<lparr>ident = ''TP1'', status = ''FILLED''\<rparr>,
                     \<lparr>ident = ''SL1'', status = ''COMPLETE''\<rparr>]"
  let ?env = "\<lparr>ordersReply = GetOrdersOk ?book,
               cancelReply = CancelFailed, positionsReply = NoShortPosition\<rparr>"
  have a: "monitoringActive startMonitor" by (simp add: startMonitor_def)
  have f: "ordersReply ?env = GetOrdersOk ?book" by simp
  have t: "executed (findOrder ?book (tpOrderId ?b))" by (simp add: findOrder_def executed_def)
  have s: "executed (findOrder ?book (slOrderId ?b))" by (simp add: findOrder_def executed_def)
  from both_filled_resolves_profit [OF a f t s,
      where tick = "shortMonitorTick ?b (JsNumber (Num 502))" and slPrice = "JsNumber (Num 502)"]
    a t s
  show ?thesis by simp
qed

text \<open>
  C4. For every tick of an active monitor whose snapshot shows the take-profit order
  executed and the stop-loss order present and not executed, in both functions: the
  monitor stops, the tick prints that the trade completed with profit, and it makes
  exactly one call of \<^verbatim>\<open>cancelOrder\<close>, on the stop-loss order id.
\<close>

theorem take_profit_filled_cancels_stop_loss:
  assumes active: "monitoringActive m"
    and fetched: "ordersReply env = GetOrdersOk book"
    and tp: "executed (findOrder book (tpOrderId b))"
    and sl_id: "slOrderId b = Some sl"
    and sl_open: "findOrder book (Some sl) = Some entry" "\<not> executed (Some entry)"
    and which: "tick = buyMonitorTick b \<or> tick = shortMonitorTick b slPrice"
  shows "\<not> monitoringActive (fst (tick env m))
         \<and> cancelCalls (snd (tick env m)) = [CallCancelOrder (Some sl)]
         \<and> Print TradeCompletedProfit \<in> set (snd (tick env m))"
  using which
proof
  assume "tick = buyMonitorTick b"
  then show ?thesis
    by (simp add: buyMonitorTick_tp_executed [OF active fetched tp] cancelCalls_def sl_id)
next
  assume "tick = shortMonitorTick b slPrice"
  then show ?thesis
    by (simp add: shortMonitorTick_tp_executed [OF active fetched tp] cancelCalls_def sl_id)
qed

theorem take_profit_filled_cancels_stop_loss_witness:
  "monitoringActive \<lparr>monitoringActive = True, monitorCount = 1\<rparr>
   \<and> executed (findOrder (Some [\<lparr>ident = ''TP1'', status = ''COMPLETE''\<rparr>,
                                \<lparr>ident = ''SL1'', status = ''PENDING''\<rparr>]) (Some ''TP1''))
   \<and> findOrder (Some [\<lparr>ident = ''TP1'', status = ''COMPLETE''\<rparr>,
                      \<lparr>ident = ''SL1'', status = ''PENDING''\<rparr>]) (Some ''SL1'')
     = Some \<lparr>ident = ''SL1'', status = ''PENDING''\<rparr>
   \<and> \<not> executed (Some \<lparr>ident = ''SL1'', status = ''PENDING''\<rparr>)
   \<and> cancelCalls (snd (buyMonitorTick \<lparr>tpOrderId = Some ''TP1'', slOrderId = Some ''SL1''\<rparr>
        \<lparr>ordersReply = GetOrdersOk (Some [\<lparr>ident = ''TP1'', status = ''COMPLETE''\<rparr>,
                                          \<lparr>ident = ''SL1'', status = ''PENDING''\<rparr>]),
         cancelReply = CancelOk, positionsReply = NoShortPosition\<rparr>
        \<lparr>monitoringActive = True, monitorCount = 1\<rparr>))
     = [CallCancelOrder (Some ''SL1'')]
   \<and> Print TradeCompletedProfit
       \<in> set (snd (buyMonitorTick \<lparr>tpOrderId = Some ''TP1'', slOrderId = Some ''SL1''\<rparr>
        \<lparr>ordersReply = GetOrdersOk (Some [\<lparr>ident = ''TP1'', status = ''COMPLETE''\<rparr>,
                                          \<lparr>ident = ''SL1'', status = ''PENDING''\<rparr>]),
         cancelReply = CancelOk, positionsReply = NoShortPosition\<rparr>
        \<lparr>monitoringActive = True, monitorCount = 1\<rparr>))"
proof -
  let ?b = "\<lparr>tpOrderId = Some ''TP1'', slOrderId = Some ''SL1''\<rparr>"
  let ?book = "Some [\<lparr>ident = ''TP1'', status = ''COMPLETE''\<rparr>,
                     \<lparr>ident = ''SL1'', status = ''PENDING''\<rparr>]"
  let ?env = "\<lparr>ordersReply = GetOrdersOk ?book,
               cancelReply = CancelOk, positionsReply = NoShortPosition\<rparr>"
  let ?m = "\<lparr>monitoringActive = True, monitorCount = 1\<rparr>"
  have a: "monitoringActive ?m" by simp
  have f: "ordersReply ?env = GetOrdersOk ?book" by simp
  have t: "executed (findOrder ?book (tpOrderId ?b))" by (simp add: findOrder_def executed_def)
  have i: "slOrderId ?b = Some ''SL1''" by simp
  have s: "findOrder ?book (Some ''SL1'') = Some \<lparr>ident = ''SL1'', status = ''PENDING''\<rparr>"
    by (simp add: findOrder_def)
  have n: "\<not> executed (Some \<lparr>ident = ''SL1'', status = ''PENDING''\<rparr>)"
    by (simp add: executed_def)
  from take_profit_filled_cancels_stop_loss [OF a f t i s n, where tick = "buyMonitorTick ?b"]
    a t s n
  show ?thesis by simp
qed

text \<open>
  C5. The claim fails on the code: the monitor keeps no record of a failed cancellation.
  Its variables after a tick whose \<^verbatim>\<open>cancelOrder\<close> call failed equal those after the same
  tick with a successful call; the failure shows only in the warning the tick prints.
\<close>

theorem cancel_failure_leaves_no_flag_counterexample:
  "fst (buyMonitorTick \<lparr>tpOrderId = Some ''TP1'', slOrderId = Some ''SL1''\<rparr>
          \<lparr>ordersReply = GetOrdersOk (Some [\<lparr>ident = ''TP1'', status = ''PENDING''\<rparr>,
                                            \<lparr>ident = ''SL1'', status = ''COMPLETE''\<rparr>]),
           cancelReply = CancelFailed, positionsReply = NoShortPosition\<rparr>
          startMonitor)
   = fst (buyMonitorTick \<lparr>tpOrderId = Some ''TP1'', slOrderId = Some ''SL1''\<rparr>
          \<lparr>ordersReply = GetOrdersOk (Some [\<lparr>ident = ''TP1'', status = ''PENDING''\<rparr>,
                                            \<lparr>ident = ''SL1'', status = ''COMPLETE''\<rparr>]),
           cancelReply = CancelOk, positionsReply = NoShortPosition\<rparr>
          startMonitor)
   \<and> buyMonitorTick \<lparr>tpOrderId = Some ''TP1'', slOrderId = Some ''SL1''\<rparr>
          \<lparr>ordersReply = GetOrdersOk (Some [\<lparr>ident = ''TP1'', status = ''PENDING''\<rparr>,
                                            \<lparr>ident = ''SL1'', status = ''COMPLETE''\<rparr>]),
           cancelReply = CancelFailed, positionsReply = NoShortPosition\<rparr>
          startMonitor
     = (\<lparr>monitoringActive = False, monitorCount = 1\<rparr>,
        [CallGetOrders, Print StopLossExecuted, CallCancelOrder (Some ''TP1''),
         Print CouldNotCancelTakeProfit, ClearInterval, Print TradeCompletedLoss])"
  by (simp add: buyMonitorTick_def startMonitor_def findOrder_def executed_def)

text \<open>
  C5, as amended. When the \<^verbatim>\<open>cancelOrder\<close> call of a resolving tick fails, in both
  functions: the call is not retried (the tick makes exactly one call), the failure is
  caught and printed as a warning, the monitor stops and the tick prints the outcome of
  the trade (the loss when it is the stop-loss order that was executed), and the tick
  returns normally. The monitor's variables are the same as after a successful call: no
  flag records the failure. In the short-sell function the stop-loss branch reaches its
  \<^verbatim>\<open>cancelOrder\<close> call when \<^verbatim>\<open>finalStopLossPrice\<close> is a number, which is assumed for that
  branch.
\<close>

theorem cancel_failure_is_caught:
  assumes active: "monitoringActive m"
    and fetched: "ordersReply env = GetOrdersOk book"
    and filled: "executed (findOrder book (tpOrderId b)) \<or> executed (findOrder book (slOrderId b))"
    and failed: "cancelReply env = CancelFailed"
    and which: "tick = buyMonitorTick b
                \<or> (tick = shortMonitorTick b slPrice
                    \<and> (executed (findOrder book (tpOrderId b)) \<or> \<not> toFixedThrows slPrice))"
  shows "length (cancelCalls (snd (tick env m))) = 1
         \<and> fst (tick env m) = \<lparr>monitoringActive = False, monitorCount = monitorCount m + 1\<rparr>
         \<and> fst (tick env m) = fst (tick (env\<lparr>cancelReply := CancelOk\<rparr>) m)
         \<and> (if executed (findOrder book (tpOrderId b))
             then Print CouldNotCancelStopLoss \<in> set (snd (tick env m))
                  \<and> Print TradeCompletedProfit \<in> set (snd (tick env m))
             else Print CouldNotCancelTakeProfit \<in> set (snd (tick env m))
                  \<and> Print TradeCompletedLoss \<in> set (snd (tick env m)))"
proof (cases "executed (findOrder book (tpOrderId b))")
  case True
  have fetched': "ordersReply (env\<lparr>cancelReply := CancelOk\<rparr>) = GetOrdersOk book"
    using fetched by simp
  from which show ?thesis
  proof
    assume "tick = buyMonitorTick b"
    then show ?thesis
      using True failed
      by (simp add: buyMonitorTick_tp_executed [OF active fetched True]
          buyMonitorTick_tp_executed [OF active fetched' True] cancelCalls_def)
  next
    assume "tick = shortMonitorTick b slPrice
            \<and> (executed (findOrder book (tpOrderId b)) \<or> \<not> toFixedThrows slPrice)"
    then show ?thesis
      using True failed
      by (simp add: shortMonitorTick_tp_executed [OF active fetched True]
          shortMonitorTick_tp_executed [OF active fetched' True] cancelCalls_def)
  qed
next
  case False
  with filled have sl: "executed (findOrder book (slOrderId b))" by simp
  have fetched': "ordersReply (env\<lparr>cancelReply := CancelOk\<rparr>) = GetOrdersOk book"
    using fetched by simp
  from which show ?thesis
  proof
    assume "tick = buyMonitorTick b"
    then show ?thesis
      using False failed
      by (simp add: buyMonitorTick_sl_executed [OF active fetched False sl]
          buyMonitorTick_sl_executed [OF active fetched' False sl] cancelCalls_def)
  next
    assume short: "tick = shortMonitorTick b slPrice
            \<and> (executed (findOrder book (tpOrderId b)) \<or> \<not> toFixedThrows slPrice)"
    with False have numeric: "\<not> toFixedThrows slPrice" by simp
    from short show ?thesis
      using False failed
      by (simp add: shortMonitorTick_sl_executed [OF active fetched False sl numeric]
          shortMonitorTick_sl_executed [OF active fetched' False sl numeric] cancelCalls_def)
  qed
qed

theorem cancel_failure_is_caught_witness:
  "monitoringActive startMonitor
   \<and> (executed (findOrder (Some [\<lparr>ident = ''SL1'', status = ''COMPLETE''\<rparr>]) (Some ''TP1''))
      \<or> executed (findOrder (Some [\<lparr>ident = ''SL1'', status = ''COMPLETE''\<rparr>]) (Some ''SL1'')))
   \<and> \<not> toFixedThrows (JsNumber (Num 502))
   \<and> length (cancelCalls (snd (shortMonitorTick
        \<lparr>tpOrderId = Some ''TP1'', slOrderId = Some ''SL1''\<rparr> (JsNumber (Num 502))
        \<lparr>ordersReply = GetOrdersOk (Some [\<lparr>ident = ''SL1'', status = ''COMPLETE''\<rparr>]),
         cancelReply = CancelFailed, positionsReply = NoShortPosition\<rparr>
        startMonitor))) = 1
   \<and> Print TradeCompletedLoss \<in> set (snd (shortMonitorTick
        \<lparr>tpOrderId = Some ''TP1'', slOrderId = Some ''SL1''\<rparr> (JsNumber (Num 502))
        \<lparr>ordersReply = GetOrdersOk (Some [\<lparr>ident = ''SL1'', status = ''COMPLETE''\<rparr>]),
         cancelReply = CancelFailed, positionsReply = NoShortPosition\<rparr>
        startMonitor))
   \<and> Print CouldNotCancelTakeProfit \<in> set (snd (shortMonitorTick
        \<lparr>tpOrderId = Some ''TP1'', slOrderId = Some ''SL1''\<rparr> (JsNumber (Num 502))
        \<lparr>ordersReply = GetOrdersOk (Some [\<lparr>ident = ''SL1'', status = ''COMPLETE''\<rparr>]),
         cancelReply = CancelFailed, positionsReply = NoShortPosition\<rparr>
        startMonitor))"
proof -
  let ?b = "\<lparr>tpOrderId = Some ''TP1'', slOrderId = Some ''SL1''\<rparr>"
  let ?book = "Some [\<lparr>ident = ''SL1'', status = ''COMPLETE''\<rparr>]"
  let ?env = "\<lparr>ordersReply = GetOrdersOk ?book,
               cancelReply = CancelFailed, positionsReply = NoShortPosition\<rparr>"
  have a: "monitoringActive startMonitor" by (simp add: startMonitor_def)
  have f: "ordersReply ?env = GetOrdersOk ?book" by simp
  have t: "\<not> executed (findOrder ?book (tpOrderId ?b))" by (simp add: findOrder_def executed_def)
  have s: "executed (findOrder ?book (tpOrderId ?b)) \<or> executed (findOrder ?book (slOrderId ?b))"
    by (simp add: findOrder_def executed_def)
  have c: "cancelReply ?env = CancelFailed" by simp
  have n: "\<not> toFixedThrows (JsNumber (Num 502))" by simp
  have w: "shortMonitorTick ?b (JsNumber (Num 502)) = buyMonitorTick ?b
           \<or> (shortMonitorTick ?b (JsNumber (Num 502)) = shortMonitorTick ?b (JsNumber (Num 502))
               \<and> (executed (findOrder ?book (tpOrderId ?b))
                   \<or> \<not> toFixedThrows (JsNumber (Num 502))))"
    by simp
  from cancel_failure_is_caught [OF a f s c w] a t s n
  show ?thesis by simp
qed

text \<open>
  C7. A tick of an active monitor whose \<^verbatim>\<open>getOrders\<close> call fails, in both functions,
  only counts the tick and prints the error: \<^verbatim>\<open>monitoringActive\<close> stays true, no order is
  cancelled and the timer is not cleared, so the failure is not terminal; and the next
  tick, whatever the gateway replies then, calls \<^verbatim>\<open>getOrders\<close> again.
\<close>

theorem fetch_failure_skips_tick:
  assumes active: "monitoringActive m"
    and failed: "ordersReply env = GetOrdersFailed"
  shows "buyMonitorTick b env m
           = (m\<lparr>monitorCount := monitorCount m + 1\<rparr>, [CallGetOrders, Print MonitoringError])
         \<and> shortMonitorTick b slPrice env m
           = (m\<lparr>monitorCount := monitorCount m + 1\<rparr>,
              [Print MonitorCheck, CallGetOrders, Print MonitoringError])
         \<and> monitoringActive (fst (buyMonitorTick b env m))
         \<and> monitoringActive (fst (shortMonitorTick b slPrice env m))
         \<and> CallGetOrders \<in> set (snd (buyMonitorTick b next_env (fst (buyMonitorTick b env m))))
         \<and> CallGetOrders \<in> set (snd (shortMonitorTick b slPrice next_env (fst (shortMonitorTick b slPrice env m))))"
proof -
  have again_buy: "CallGetOrders \<in> set (snd (buyMonitorTick b e n))" if "monitoringActive n" for e n
    using that by (simp add: buyMonitorTick_def Let_def split: orders_reply.split)
  have again_short: "CallGetOrders \<in> set (snd (shortMonitorTick b slPrice e n))" if "monitoringActive n" for e n
    using that by (simp add: shortMonitorTick_def Let_def split: orders_reply.split)
  show ?thesis
    using active again_buy [of "m\<lparr>monitorCount := monitorCount m + 1\<rparr>" next_env]
      again_short [of "m\<lparr>monitorCount := monitorCount m + 1\<rparr>" next_env]
    by (simp add: buyMonitorTick_fetch_failed [OF active failed]
        shortMonitorTick_fetch_failed [OF active failed])
qed

theorem fetch_failure_skips_tick_witness:
  "monitoringActive \<lparr>monitoringActive = True, monitorCount = 7\<rparr>
   \<and> buyMonitorTick \<lparr>tpOrderId = Some ''TP1'', slOrderId = Some ''SL1''\<rparr>
       \<lparr>ordersReply = GetOrdersFailed, cancelReply = CancelOk,
        positionsReply = NoShortPosition\<rparr>
       \<lparr>monitoringActive = True, monitorCount = 7\<rparr>
     = (\<lparr>monitoringActive = True, monitorCount = 8\<rparr>, [CallGetOrders, Print MonitoringError])"
proof -
  let ?m = "\<lparr>monitoringActive = True, monitorCount = 7\<rparr>"
  let ?env = "\<lparr>ordersReply = GetOrdersFailed, cancelReply = CancelOk,
               positionsReply = NoShortPosition\<rparr>"
  have a: "monitoringActive ?m" by simp
  have f: "ordersReply ?env = GetOrdersFailed" by simp
  from fetch_failure_skips_tick
    [OF a f, where b = "\<lparr>tpOrderId = Some ''TP1'', slOrderId = Some ''SL1''\<rparr>"]
  show ?thesis by simp
qed

text \<open>
  C8. The claim fails on the code where the tick that brings the counter to 360 cannot
  fetch the orders: the test against the maximum time comes after the fetch, inside the
  same \<^verbatim>\<open>try\<close>, so this tick leaves the monitor active. In the short-sell function it
  fails also when \<^verbatim>\<open>finalStopLossPrice\<close> is a string: printing the status of the
  stop-loss order throws before the test is reached, on every tick.
\<close>

theorem expiry_skipped_on_fetch_failure_counterexample:
  "buyMonitorTick \<lparr>tpOrderId = Some ''TP1'', slOrderId = Some ''SL1''\<rparr>
     \<lparr>ordersReply = GetOrdersFailed, cancelReply = CancelOk, positionsReply = NoShortPosition\<rparr>
     \<lparr>monitoringActive = True, monitorCount = 359\<rparr>
   = (\<lparr>monitoringActive = True, monitorCount = 360\<rparr>, [CallGetOrders, Print MonitoringError])
   \<and> shortMonitorTick \<lparr>tpOrderId = Some ''TP1'', slOrderId = Some ''SL1''\<rparr>
       (JsString ''502.51.7588'')
       \<lparr>ordersReply = GetOrdersOk (Some [\<lparr>ident = ''TP1'', status = ''PENDING''\<rparr>,
                                         \<lparr>ident = ''SL1'', status = ''PENDING''\<rparr>]),
        cancelReply = CancelOk, positionsReply = NoShortPosition\<rparr>
       \<lparr>monitoringActive = True, monitorCount = 359\<rparr>
     = (\<lparr>monitoringActive = True, monitorCount = 360\<rparr>,
        [Print MonitorCheck, CallGetOrders, Print TakeProfitStatus, Print MonitoringError])"
  by (simp add: buyMonitorTick_def shortMonitorTick_def findOrder_def executed_def)

text \<open>
  C8, as amended. If a callback that overlaps no other one runs on an active monitor
  while the counter reaches or exceeds the maximum of 360, its fetch of the orders
  succeeds and neither order is seen executed (and, in the short-sell function,
  \<^verbatim>\<open>finalStopLossPrice\<close> is a number), then in both functions: the monitor stops
  (\<^verbatim>\<open>monitoringActive\<close> becomes false and the timer is cleared), the callback makes no call
  of \<^verbatim>\<open>cancelOrder\<close> (its only calls of the gateway read orders and positions), it
  prints the stop once, and nothing happens afterwards, whatever the timer and the
  gateway do.
\<close>

theorem expires_at_max_monitor_time:
  assumes active: "monitoringActive m"
    and late: "maxMonitorTime \<le> monitorCount m + 1"
    and fetched: "ordersReply env = GetOrdersOk book"
    and tp: "\<not> executed (findOrder book (tpOrderId b))"
    and sl: "\<not> executed (findOrder book (slOrderId b))"
    and which: "(tick, fire, resume) = (buyMonitorTick b, buyFire, buyResume b)
                \<or> ((tick, fire, resume)
                      = (shortMonitorTick b slPrice, shortFire, shortResume b slPrice)
                    \<and> \<not> toFixedThrows slPrice)"
  shows "runSchedule fire resume \<lparr>vars = m, inFlight = []\<rparr> (aloneSchedule env)
           = (\<lparr>vars = fst (tick env m), inFlight = []\<rparr>, snd (tick env m))
         \<and> fst (tick env m) = \<lparr>monitoringActive = False, monitorCount = monitorCount m + 1\<rparr>
         \<and> cancelCalls (snd (tick env m)) = []
         \<and> set (snd (tick env m))
             \<subseteq> {CallGetOrders, CallGetPositions, ClearInterval, Print MonitorCheck,
                Print MonitoringStatus, Print TakeProfitStatus, Print StopLossStatus,
                Print UnrealizedPnL, Print MonitoringStopped}
         \<and> ClearInterval \<in> set (snd (tick env m))
         \<and> filter (\<lambda>e. e = Print MonitoringStopped) (snd (tick env m)) = [Print MonitoringStopped]
         \<and> runSchedule fire resume \<lparr>vars = fst (tick env m), inFlight = []\<rparr> sched
             = (\<lparr>vars = fst (tick env m), inFlight = []\<rparr>, [])"
proof -
  let ?m' = "\<lparr>monitoringActive = False, monitorCount = monitorCount m + 1\<rparr>"
  have inert: "fire ?m' = (?m', [], None)"
    using which by (auto simp add: buyFire_inactive shortFire_inactive)
  have rest: "runSchedule fire resume \<lparr>vars = ?m', inFlight = []\<rparr> sched
              = (\<lparr>vars = ?m', inFlight = []\<rparr>, [])"
    using runSchedule_idle [of fire "\<lparr>vars = ?m', inFlight = []\<rparr>" resume sched] inert
    by simp
  from which show ?thesis
  proof
    assume w: "(tick, fire, resume) = (buyMonitorTick b, buyFire, buyResume b)"
    then have alone: "runSchedule fire resume \<lparr>vars = m, inFlight = []\<rparr> (aloneSchedule env)
           = (\<lparr>vars = fst (tick env m), inFlight = []\<rparr>, snd (tick env m))"
      by (simp add: buyMonitorTick_alone)
    have "fst (tick env m) = ?m'
         \<and> cancelCalls (snd (tick env m)) = []
         \<and> set (snd (tick env m))
             \<subseteq> {CallGetOrders, CallGetPositions, ClearInterval, Print MonitorCheck,
                Print MonitoringStatus, Print TakeProfitStatus, Print StopLossStatus,
                Print UnrealizedPnL, Print MonitoringStopped}
         \<and> ClearInterval \<in> set (snd (tick env m))
         \<and> filter (\<lambda>e. e = Print MonitoringStopped) (snd (tick env m)) = [Print MonitoringStopped]"
      using w late
      by (auto simp add: buyMonitorTick_no_fill [OF active fetched tp sl] cancelCalls_def)
    with alone rest show ?thesis by simp
  next
    assume w: "(tick, fire, resume)
                 = (shortMonitorTick b slPrice, shortFire, shortResume b slPrice)
               \<and> \<not> toFixedThrows slPrice"
    then have numeric: "\<not> toFixedThrows slPrice" by simp
    from w have alone: "runSchedule fire resume \<lparr>vars = m, inFlight = []\<rparr> (aloneSchedule env)
           = (\<lparr>vars = fst (tick env m), inFlight = []\<rparr>, snd (tick env m))"
      by (simp add: shortMonitorTick_alone)
    have "fst (tick env m) = ?m'
         \<and> cancelCalls (snd (tick env m)) = []
         \<and> set (snd (tick env m))
             \<subseteq> {CallGetOrders, CallGetPositions, ClearInterval, Print MonitorCheck,
                Print MonitoringStatus, Print TakeProfitStatus, Print StopLossStatus,
                Print UnrealizedPnL, Print MonitoringStopped}
         \<and> ClearInterval \<in> set (snd (tick env m))
         \<and> filter (\<lambda>e. e = Print MonitoringStopped) (snd (tick env m)) = [Print MonitoringStopped]"
      using w late
      by (auto simp add: shortMonitorTick_no_fill [OF active fetched tp sl numeric] cancelCalls_def)
    with alone rest show ?thesis by simp
  qed
qed

theorem expires_at_max_monitor_time_witness:
  "monitoringActive \<lparr>monitoringActive = True, monitorCount = 359\<rparr>
   \<and> maxMonitorTime \<le> monitorCount \<lparr>monitoringActive = True, monitorCount = 359\<rparr> + 1
   \<and> \<not> executed (findOrder (Some [\<lparr>ident = ''TP1'', status = ''PENDING''\<rparr>,
                                  \<lparr>ident = ''SL1'', status = ''PENDING''\<rparr>]) (Some ''TP1''))
   \<and> \<not> executed (findOrder (Some [\<lparr>ident = ''TP1'', status = ''PENDING''\<rparr>,
                                  \<lparr>ident = ''SL1'', status = ''PENDING''\<rparr>]) (Some ''SL1''))
   \<and> \<not> toFixedThrows (JsNumber (Num 502))
   \<and> shortMonitorTick \<lparr>tpOrderId = Some ''TP1'', slOrderId = Some ''SL1''\<rparr>
        (JsNumber (Num 502))
        \<lparr>ordersReply = GetOrdersOk (Some [\<lparr>ident = ''TP1'', status = ''PENDING''\<rparr>,
                                          \<lparr>ident = ''SL1'', status = ''PENDING''\<rparr>]),
         cancelReply = CancelOk, positionsReply = NoShortPosition\<rparr>
        \<lparr>monitoringActive = True, monitorCount = 359\<rparr>
      = (\<lparr>monitoringActive = False, monitorCount = 360\<rparr>,
         [Print MonitorCheck, CallGetOrders, Print TakeProfitStatus, Print StopLossStatus,
          CallGetPositions, ClearInterval, Print MonitoringStopped])
   \<and> runSchedule shortFire
        (shortResume \<lparr>tpOrderId = Some ''TP1'', slOrderId = Some ''SL1''\<rparr> (JsNumber (Num 502)))
        \<lparr>vars = \<lparr>monitoringActive = False, monitorCount = 360\<rparr>, inFlight = []\<rparr>
        [TimerFires,
         ReplyArrives 0 (GotOrders (GetOrdersOk (Some [\<lparr>ident = ''TP1'', status = ''COMPLETE''\<rparr>])))]
      = (\<lparr>vars = \<lparr>monitoringActive = False, monitorCount = 360\<rparr>, inFlight = []\<rparr>, [])"
proof -
  let ?b = "\<lparr>tpOrderId = Some ''TP1'', slOrderId = Some ''SL1''\<rparr>"
  let ?p = "JsNumber (Num 502)"
  let ?book = "Some [\<lparr>ident = ''TP1'', status = ''PENDING''\<rparr>,
                     \<lparr>ident = ''SL1'', status = ''PENDING''\<rparr>]"
  let ?env = "\<lparr>ordersReply = GetOrdersOk ?book,
               cancelReply = CancelOk, positionsReply = NoShortPosition\<rparr>"
  let ?m = "\<lparr>monitoringActive = True, monitorCount = 359\<rparr>"
  let ?later = "[TimerFires,
         ReplyArrives 0 (GotOrders (GetOrdersOk (Some [\<lparr>ident = ''TP1'', status = ''COMPLETE''\<rparr>])))]"
  have a: "monitoringActive ?m" by simp
  have l: "maxMonitorTime \<le> monitorCount ?m + 1" by (simp add: maxMonitorTime_def)
  have f: "ordersReply ?env = GetOrdersOk ?book" by simp
  have t: "\<not> executed (findOrder ?book (tpOrderId ?b))" by (simp add: findOrder_def executed_def)
  have s: "\<not> executed (findOrder ?book (slOrderId ?b))" by (simp add: findOrder_def executed_def)
  have n: "\<not> toFixedThrows ?p" by simp
  have w: "(shortMonitorTick ?b ?p, shortFire, shortResume ?b ?p)
             = (buyMonitorTick ?b, buyFire, buyResume ?b)
           \<or> ((shortMonitorTick ?b ?p, shortFire, shortResume ?b ?p)
                 = (shortMonitorTick ?b ?p, shortFire, shortResume ?b ?p)
               \<and> \<not> toFixedThrows ?p)"
    by (rule disjI2) (simp only: simp_thms toFixedThrows.simps)
  have step: "shortMonitorTick ?b ?p ?env ?m
      = (\<lparr>monitoringActive = False, monitorCount = 360\<rparr>,
         [Print MonitorCheck, CallGetOrders, Print TakeProfitStatus, Print StopLossStatus,
          CallGetPositions, ClearInterval, Print MonitoringStopped])"
    by (simp add: shortMonitorTick_def maxMonitorTime_def findOrder_def executed_def)
  from expires_at_max_monitor_time [OF a l f t s w, where sched = ?later] a l t s n step
  show ?thesis by simp
qed

text \<open>
  C9. The counter is incremented before the fetch, and the test against the maximum time
  is reached only when the fetch succeeded. So over every run of ticks whose fetches all
  fail, from any active monitor and however large its counter, in both functions: each
  tick adds one to the counter, the monitor stays active after the run (it is never
  stopped for the maximum time, and the timer is never cleared), and each tick still
  calls \<^verbatim>\<open>getOrders\<close>.
\<close>

theorem failing_fetches_never_expire:
  assumes active: "monitoringActive m"
    and failing: "\<forall>env \<in> set envs. ordersReply env = GetOrdersFailed"
  shows "runTicks (buyMonitorTick b) m envs
           = (m\<lparr>monitorCount := monitorCount m + length envs\<rparr>,
              concat (map (\<lambda>env. [CallGetOrders, Print MonitoringError]) envs))
         \<and> runTicks (shortMonitorTick b slPrice) m envs
           = (m\<lparr>monitorCount := monitorCount m + length envs\<rparr>,
              concat (map (\<lambda>env. [Print MonitorCheck, CallGetOrders, Print MonitoringError]) envs))
         \<and> monitoringActive (fst (runTicks (buyMonitorTick b) m envs))
         \<and> monitoringActive (fst (runTicks (shortMonitorTick b slPrice) m envs))"
  using assms
proof (induction envs arbitrary: m)
  case Nil
  then show ?case by simp
next
  case (Cons env envs)
  let ?m1 = "m\<lparr>monitorCount := monitorCount m + 1\<rparr>"
  from Cons.prems have f: "ordersReply env = GetOrdersFailed"
    and rest: "\<forall>env \<in> set envs. ordersReply env = GetOrdersFailed" by simp_all
  have a1: "monitoringActive ?m1" using Cons.prems(1) by simp
  from Cons.IH [OF a1 rest] Cons.prems(1) show ?case
    by (simp add: buyMonitorTick_fetch_failed [OF Cons.prems(1) f]
        shortMonitorTick_fetch_failed [OF Cons.prems(1) f])
qed

theorem failing_fetches_never_expire_witness:
  "monitoringActive \<lparr>monitoringActive = True, monitorCount = 358\<rparr>
   \<and> ordersReply \<lparr>ordersReply = GetOrdersFailed, cancelReply = CancelOk,
                    positionsReply = NoShortPosition\<rparr> = GetOrdersFailed
   \<and> fst (runTicks (buyMonitorTick \<lparr>tpOrderId = Some ''TP1'', slOrderId = Some ''SL1''\<rparr>)
        \<lparr>monitoringActive = True, monitorCount = 358\<rparr>
        (replicate 4 \<lparr>ordersReply = GetOrdersFailed, cancelReply = CancelOk,
                      positionsReply = NoShortPosition\<rparr>))
     = \<lparr>monitoringActive = True, monitorCount = 362\<rparr>"
proof -
  let ?m = "\<lparr>monitoringActive = True, monitorCount = 358\<rparr>"
  let ?envs = "replicate 4 \<lparr>ordersReply = GetOrdersFailed, cancelReply = CancelOk,
                            positionsReply = NoShortPosition\<rparr>"
  have a: "monitoringActive ?m" by simp
  have f: "\<forall>env \<in> set ?envs. ordersReply env = GetOrdersFailed" by simp
  from failing_fetches_never_expire
    [OF a f, where b = "\<lparr>tpOrderId = Some ''TP1'', slOrderId = Some ''SL1''\<rparr>"] a f
  show ?thesis by simp
qed

subsection \<open>Validation of the short-sell stop-loss limit order\<close>

lemma validateOrderData_never_placement_failed:
  "validateOrderData order \<noteq> Some OrderPlacementFailed"
  by (simp add: validateOrderData_def)

lemma placeOrder_typed:
  "otype orderData \<noteq> 0 \<Longrightarrow>
   placeOrder reply orderData =
     (case validateOrderData orderData of
        Some err \<Rightarrow> Inl err
      | None \<Rightarrow> (case reply of PlaceOk i \<Rightarrow> Inr i | PlaceFailed \<Rightarrow> Inl OrderPlacementFailed))"
  by (simp add: placeOrder_def)

lemma subHalf_not_above:
  assumes "mono rnd" and "\<And>x. stopLossPrice = Num x \<Longrightarrow> rnd x = x"
  shows "\<not> num_lt (Some stopLossPrice) (Some (subHalf rnd stopLossPrice))"
proof (cases stopLossPrice)
  case (Num x)
  have "rnd (x - 1 / 2) \<le> rnd x" using assms(1) by (simp add: monoD)
  with assms(2) [OF Num] Num show ?thesis by simp
qed simp_all

lemma validate_shortStopLossOrder:
  assumes "mono rnd" and "\<And>x. stopLossPrice = Num x \<Longrightarrow> rnd x = x"
  shows "validateOrderData (shortStopLossOrder rnd symb qty stopLossPrice) \<noteq> None"
proof (cases stopLossPrice)
  case (Num x)
  have "rnd (x - 1 / 2) \<le> rnd x" using assms(1) by (simp add: monoD)
  with assms(2) [OF Num] have "rnd (x - 1 / 2) \<le> x" by simp
  with Num show ?thesis
    by (simp add: validateOrderData_def shortStopLossOrder_def)
qed (simp_all add: validateOrderData_def shortStopLossOrder_def)

lemma shortStopLossOrder_rejected:
  assumes "mono rnd" and "\<And>x. stopLossPrice = Num x \<Longrightarrow> rnd x = x"
  shows "\<exists>err. placeOrder reply (shortStopLossOrder rnd symb qty stopLossPrice) = Inl err
         \<and> err \<noteq> OrderPlacementFailed"
proof -
  obtain err where v: "validateOrderData (shortStopLossOrder rnd symb qty stopLossPrice) = Some err"
    using validate_shortStopLossOrder [OF assms, where symb = symb and qty = qty] by auto
  have t: "otype (shortStopLossOrder rnd symb qty stopLossPrice) \<noteq> 0"
    by (simp add: shortStopLossOrder_def)
  have "err \<noteq> OrderPlacementFailed"
    using v validateOrderData_never_placement_failed [of "shortStopLossOrder rnd symb qty stopLossPrice"]
    by auto
  with v show ?thesis by (simp add: placeOrder_typed [OF t])
qed

lemma mono_exactResult: "mono exactResult"
  by (simp add: mono_def exactResult_def)

lemma mono_nearestEvenInteger: "mono nearestEvenInteger"
proof (rule monoI)
  fix x y :: real
  assume "x \<le> y"
  then have "round (x / 2) \<le> round (y / 2)" by (simp add: round_mono)
  then show "nearestEvenInteger x \<le> nearestEvenInteger y"
    by (simp add: nearestEvenInteger_def)
qed

section \<open>Claims about the placement of the protective orders\<close>

text \<open>
  C10. The claim fails on the code where it says that the limit price is greater than the
  stop price. With a stop-loss price of \<open>NaN\<close> (a price argument that is no number) both
  prices are \<open>NaN\<close> and no comparison between them holds; the placement is then refused
  for its missing limit price. With a stop-loss price of \<open>10^16\<close> the subtraction of 0.50
  rounds back to \<open>10^16\<close>, so the two prices are equal; the placement is then refused by
  the price relation check, whose test is \<^verbatim>\<open>>=\<close>.
\<close>

theorem short_stop_limit_not_greater_counterexample:
  "\<not> num_lt (stopPrice (shortStopLossOrder exactResult ''NSE:SBIN-EQ'' (Num 10) NaN))
             (limitPrice (shortStopLossOrder exactResult ''NSE:SBIN-EQ'' (Num 10) NaN))
   \<and> placeOrder (PlaceOk ''SL1'') (shortStopLossOrder exactResult ''NSE:SBIN-EQ'' (Num 10) NaN)
       = Inl LimitPriceRequired
   \<and> stopPrice (shortStopLossOrder nearestEvenInteger ''NSE:SBIN-EQ'' (Num 10)
                  (Num 10000000000000000))
       = Some (Num 10000000000000000)
   \<and> limitPrice (shortStopLossOrder nearestEvenInteger ''NSE:SBIN-EQ'' (Num 10)
                   (Num 10000000000000000))
       = Some (Num 10000000000000000)
   \<and> \<not> num_lt (stopPrice (shortStopLossOrder nearestEvenInteger ''NSE:SBIN-EQ'' (Num 10)
                             (Num 10000000000000000)))
               (limitPrice (shortStopLossOrder nearestEvenInteger ''NSE:SBIN-EQ'' (Num 10)
                              (Num 10000000000000000)))
   \<and> placeOrder (PlaceOk ''SL1'')
         (shortStopLossOrder nearestEvenInteger ''NSE:SBIN-EQ'' (Num 10) (Num 10000000000000000))
       = Inl BuyStopPriceRelation"
proof -
  have r: "round (19999999999999999 / 4 :: real) = 5000000000000000"
    unfolding round_def by (rule floor_unique) simp_all
  show ?thesis
    by (simp add: shortStopLossOrder_def placeOrder_def validateOrderData_def
        nearestEvenInteger_def r Let_def)
qed

text \<open>
  C10, as amended. For every short-sell bracket setup, the stop-loss limit order built by
  \<^verbatim>\<open>shortSellWithTPSLAndMonitor\<close> is a buy order of type 3 whose limit price is the
  stop-loss price and whose stop price is the stop-loss price minus 0.50, rounded; its
  limit price is never less than its stop price (it is greater, or equal where the
  subtraction rounds back, or no number). So under this \<^verbatim>\<open>validateOrderData\<close>, for every
  symbol, quantity, price and reply of the gateway, \<^verbatim>\<open>placeOrder\<close> throws a validation
  error for this order before it calls the gateway, the fallback stop-loss market order
  of type 4 is placed next, and the stop-loss order id can only be that of the fallback
  order. The rounding is any monotone one that leaves the stop-loss price, a binary64
  value, as it is.
\<close>

theorem short_stop_limit_always_falls_back:
  assumes rounding: "mono rnd"
    and binary64: "\<And>x. stopLossPrice = Num x \<Longrightarrow> rnd x = x"
  shows "side (shortStopLossOrder rnd symb qty stopLossPrice) = 1
   \<and> otype (shortStopLossOrder rnd symb qty stopLossPrice) = 3
   \<and> limitPrice (shortStopLossOrder rnd symb qty stopLossPrice) = Some stopLossPrice
   \<and> stopPrice (shortStopLossOrder rnd symb qty stopLossPrice)
       = Some (subHalf rnd stopLossPrice)
   \<and> \<not> num_lt (limitPrice (shortStopLossOrder rnd symb qty stopLossPrice))
               (stopPrice (shortStopLossOrder rnd symb qty stopLossPrice))
   \<and> (\<exists>err. placeOrder (slPlaceReply env) (shortStopLossOrder rnd symb qty stopLossPrice)
              = Inl err
            \<and> err \<noteq> OrderPlacementFailed)
   \<and> otype (shortStopLossFallbackOrder symb qty stopLossPrice) = 4
   \<and> CallPlaceOrder (shortStopLossFallbackOrder symb qty stopLossPrice)
       \<in> set (snd (shortPlaceTPSL rnd symb qty takeProfitPrice stopLossPrice env))
   \<and> slOrderId (fst (shortPlaceTPSL rnd symb qty takeProfitPrice stopLossPrice env))
       = placedId (placeOrder (slFallbackReply env)
                     (shortStopLossFallbackOrder symb qty stopLossPrice))"
proof -
  obtain err
    where r: "placeOrder (slPlaceReply env) (shortStopLossOrder rnd symb qty stopLossPrice) = Inl err"
    and e: "err \<noteq> OrderPlacementFailed"
    using shortStopLossOrder_rejected
      [OF rounding binary64, where reply = "slPlaceReply env" and symb = symb and qty = qty]
    by auto
  have shape: "side (shortStopLossOrder rnd symb qty stopLossPrice) = 1
     \<and> otype (shortStopLossOrder rnd symb qty stopLossPrice) = 3
     \<and> limitPrice (shortStopLossOrder rnd symb qty stopLossPrice) = Some stopLossPrice
     \<and> stopPrice (shortStopLossOrder rnd symb qty stopLossPrice)
         = Some (subHalf rnd stopLossPrice)
     \<and> otype (shortStopLossFallbackOrder symb qty stopLossPrice) = 4"
    by (simp add: shortStopLossOrder_def shortStopLossFallbackOrder_def)
  have prices: "\<not> num_lt (limitPrice (shortStopLossOrder rnd symb qty stopLossPrice))
               (stopPrice (shortStopLossOrder rnd symb qty stopLossPrice))"
    using subHalf_not_above [OF rounding binary64] by (simp add: shortStopLossOrder_def)
  have fallback: "CallPlaceOrder (shortStopLossFallbackOrder symb qty stopLossPrice)
       \<in> set (snd (shortPlaceTPSL rnd symb qty takeProfitPrice stopLossPrice env))
   \<and> slOrderId (fst (shortPlaceTPSL rnd symb qty takeProfitPrice stopLossPrice env))
       = placedId (placeOrder (slFallbackReply env)
                     (shortStopLossFallbackOrder symb qty stopLossPrice))"
    by (simp add: shortPlaceTPSL_def Let_def r)
  from shape prices r e fallback show ?thesis by blast
qed

theorem short_stop_limit_always_falls_back_witness:
  "mono exactResult
   \<and> exactResult 502 = 502
   \<and> placeOrder (PlaceOk ''SL1'') (shortStopLossOrder exactResult ''NSE:SBIN-EQ'' (Num 10) (Num 502))
     = Inl BuyStopPriceRelation
   \<and> shortPlaceTPSL exactResult ''NSE:SBIN-EQ'' (Num 10) (Num 496) (Num 502)
       \<lparr>tpPlaceReply = PlaceOk ''TP1'', slPlaceReply = PlaceOk ''SL1'',
        slFallbackReply = PlaceOk ''SL2''\<rparr>
     = (\<lparr>tpOrderId = Some ''TP1'', slOrderId = Some ''SL2''\<rparr>,
        [CallPlaceOrder \<lparr>symbol = ''NSE:SBIN-EQ'', quantity = Num 10, side = 1, otype = 1,
                         limitPrice = Some (Num 496), stopPrice = None\<rparr>,
         Print TakeProfitPlaced, Print StopLossDebug,
         CallPlaceOrder \<lparr>symbol = ''NSE:SBIN-EQ'', quantity = Num 10, side = 1, otype = 3,
                         limitPrice = Some (Num 502), stopPrice = Some (Num (1003 / 2))\<rparr>,
         Print StopLossFailed, Print TryingFallback,
         CallPlaceOrder \<lparr>symbol = ''NSE:SBIN-EQ'', quantity = Num 10, side = 1, otype = 4,
                         limitPrice = None, stopPrice = Some (Num 502)\<rparr>,
         Print StopLossFallbackPlaced, Print StartingMonitoring, SetInterval])
   \<and> \<not> num_lt (limitPrice (shortStopLossOrder exactResult ''NSE:SBIN-EQ'' (Num 10) (Num 502)))
              (stopPrice (shortStopLossOrder exactResult ''NSE:SBIN-EQ'' (Num 10) (Num 502)))
   \<and> CallPlaceOrder (shortStopLossFallbackOrder ''NSE:SBIN-EQ'' (Num 10) (Num 502))
       \<in> set (snd (shortPlaceTPSL exactResult ''NSE:SBIN-EQ'' (Num 10) (Num 496) (Num 502)
       \<lparr>tpPlaceReply = PlaceOk ''TP1'', slPlaceReply = PlaceOk ''SL1'',
        slFallbackReply = PlaceOk ''SL2''\<rparr>))"
proof -
  have m: "mono exactResult" by (rule mono_exactResult)
  have b: "exactResult x = x" if "Num 502 = Num x" for x by (simp add: exactResult_def)
  from short_stop_limit_always_falls_back [OF m b, where symb = "''NSE:SBIN-EQ''"
      and qty = "Num 10" and takeProfitPrice = "Num 496"
      and env = "\<lparr>tpPlaceReply = PlaceOk ''TP1'', slPlaceReply = PlaceOk ''SL1'',
        slFallbackReply = PlaceOk ''SL2''\<rparr>"] m
  show ?thesis
    by (simp add: shortPlaceTPSL_def placeOrder_def validateOrderData_def placedId_def
        shortStopLossOrder_def shortStopLossFallbackOrder_def shortTakeProfitOrder_def
        exactResult_def)
qed

text \<open>
  C6. The claim fails on the code: the monitor is started after the two placements
  whatever their outcome. Here both placements fail; both order ids stay \<^verbatim>\<open>null\<close>, the
  errors are printed, and \<^verbatim>\<open>setInterval\<close> is called all the same.
\<close>

theorem monitor_starts_after_failed_placements_counterexample:
  "buyPlaceTPSL exactResult ''NSE:SBIN-EQ'' (Num 10) (Num 510) (Num 495)
     \<lparr>tpPlaceReply = PlaceFailed, slPlaceReply = PlaceFailed, slFallbackReply = PlaceFailed\<rparr>
   = (\<lparr>tpOrderId = None, slOrderId = None\<rparr>,
      [CallPlaceOrder \<lparr>symbol = ''NSE:SBIN-EQ'', quantity = Num 10, side = - 1, otype = 1,
                       limitPrice = Some (Num 510), stopPrice = None\<rparr>,
       Print TakeProfitFailed, Print StopLossDebug,
       CallPlaceOrder \<lparr>symbol = ''NSE:SBIN-EQ'', quantity = Num 10, side = - 1, otype = 3,
                       limitPrice = Some (Num 495), stopPrice = Some (Num (991 / 2))\<rparr>,
       Print StopLossFailed, Print StartingMonitoring, SetInterval])"
  by (simp add: buyPlaceTPSL_def placeOrder_def validateOrderData_def placedId_def
      buyTakeProfitOrder_def buyStopLossOrder_def exactResult_def)

text \<open>
  C6, as amended. In both functions the monitor is started after the placement of the
  take-profit and of the stop-loss order whether or not they succeeded. A placement that
  fails is caught and printed as an error, its order id stays \<^verbatim>\<open>null\<close>, and the function
  goes on; in the short-sell function the stop-loss id stays \<^verbatim>\<open>null\<close> when both the
  stop-loss limit order and its fallback fail.
\<close>

theorem monitor_starts_whatever_the_placements:
  "last (snd (buyPlaceTPSL rnd symb qty takeProfitPrice stopLossPrice env)) = SetInterval
   \<and> (tpOrderId (fst (buyPlaceTPSL rnd symb qty takeProfitPrice stopLossPrice env)) = None)
       = isl (placeOrder (tpPlaceReply env) (buyTakeProfitOrder symb qty takeProfitPrice))
   \<and> (slOrderId (fst (buyPlaceTPSL rnd symb qty takeProfitPrice stopLossPrice env)) = None)
       = isl (placeOrder (slPlaceReply env) (buyStopLossOrder rnd symb qty stopLossPrice))
   \<and> (Print TakeProfitFailed
         \<in> set (snd (buyPlaceTPSL rnd symb qty takeProfitPrice stopLossPrice env)))
       = isl (placeOrder (tpPlaceReply env) (buyTakeProfitOrder symb qty takeProfitPrice))
   \<and> (Print StopLossFailed
         \<in> set (snd (buyPlaceTPSL rnd symb qty takeProfitPrice stopLossPrice env)))
       = isl (placeOrder (slPlaceReply env) (buyStopLossOrder rnd symb qty stopLossPrice))
   \<and> last (snd (shortPlaceTPSL rnd symb qty takeProfitPrice stopLossPrice env)) = SetInterval
   \<and> (tpOrderId (fst (shortPlaceTPSL rnd symb qty takeProfitPrice stopLossPrice env)) = None)
       = isl (placeOrder (tpPlaceReply env) (shortTakeProfitOrder symb qty takeProfitPrice))
   \<and> (slOrderId (fst (shortPlaceTPSL rnd symb qty takeProfitPrice stopLossPrice env)) = None)
       = (isl (placeOrder (slPlaceReply env) (shortStopLossOrder rnd symb qty stopLossPrice))
          \<and> isl (placeOrder (slFallbackReply env)
                    (shortStopLossFallbackOrder symb qty stopLossPrice)))
   \<and> (Print TakeProfitFailed
         \<in> set (snd (shortPlaceTPSL rnd symb qty takeProfitPrice stopLossPrice env)))
       = isl (placeOrder (tpPlaceReply env) (shortTakeProfitOrder symb qty takeProfitPrice))
   \<and> (Print StopLossFallbackFailed
         \<in> set (snd (shortPlaceTPSL rnd symb qty takeProfitPrice stopLossPrice env)))
       = (isl (placeOrder (slPlaceReply env) (shortStopLossOrder rnd symb qty stopLossPrice))
          \<and> isl (placeOrder (slFallbackReply env)
                    (shortStopLossFallbackOrder symb qty stopLossPrice)))"
proof -
  have none: "(placedId r = None) = isl r" for r :: "place_error + order_id"
    by (cases r) (simp_all add: placedId_def)
  show ?thesis
    by (simp add: buyPlaceTPSL_def shortPlaceTPSL_def Let_def none)
qed

theorem monitor_starts_whatever_the_placements_witness:
  "shortPlaceTPSL exactResult ''NSE:SBIN-EQ'' (Num 10) (Num 496) (Num 502)
     \<lparr>tpPlaceReply = PlaceFailed, slPlaceReply = PlaceOk ''SL1'', slFallbackReply = PlaceFailed\<rparr>
   = (\<lparr>tpOrderId = None, slOrderId = None\<rparr>,
      [CallPlaceOrder \<lparr>symbol = ''NSE:SBIN-EQ'', quantity = Num 10, side = 1, otype = 1,
                       limitPrice = Some (Num 496), stopPrice = None\<rparr>,
       Print TakeProfitFailed, Print StopLossDebug,
       CallPlaceOrder \<lparr>symbol = ''NSE:SBIN-EQ'', quantity = Num 10, side = 1, otype = 3,
                       limitPrice = Some (Num 502), stopPrice = Some (Num (1003 / 2))\<rparr>,
       Print StopLossFailed, Print TryingFallback,
       CallPlaceOrder \<lparr>symbol = ''NSE:SBIN-EQ'', quantity = Num 10, side = 1, otype = 4,
                       limitPrice = None, stopPrice = Some (Num 502)\<rparr>,
       Print StopLossFallbackFailed, Print StartingMonitoring, SetInterval])
   \<and> last (snd (shortPlaceTPSL exactResult ''NSE:SBIN-EQ'' (Num 10) (Num 496) (Num 502)
     \<lparr>tpPlaceReply = PlaceFailed, slPlaceReply = PlaceOk ''SL1'', slFallbackReply = PlaceFailed\<rparr>))
     = SetInterval"
  using monitor_starts_whatever_the_placements [where rnd = exactResult
      and symb = "''NSE:SBIN-EQ''" and qty = "Num 10" and takeProfitPrice = "Num 496"
      and stopLossPrice = "Num 502"
      and env = "\<lparr>tpPlaceReply = PlaceFailed, slPlaceReply = PlaceOk ''SL1'',
                 slFallbackReply = PlaceFailed\<rparr>"]
  by (simp add: shortPlaceTPSL_def placeOrder_def validateOrderData_def placedId_def
      shortStopLossOrder_def shortStopLossFallbackOrder_def shortTakeProfitOrder_def
      exactResult_def)

end
